theory Spec2Isabelle
  imports Main
begin

section \<open>Values, objects and the store\<close>

text \<open>
  The client works on documents produced by \<^verbatim>\<open>JSON.parse\<close> and mutates them in place
  (\<^verbatim>\<open>delete data._links\<close>), and several properties speak about object identity.
  Objects therefore live in a store: an address is an index into a list of objects, and
  allocation appends to the list, so a new object never reuses an address.

  A value is a primitive, a reference, a built-in function of the runtime (its name and
  the value of its \<^verbatim>\<open>length\<close>) or one of the runtime's prototype objects.  Numbers are
  integers here; nothing in the client computes with them.
\<close>

type_synonym addr = nat

datatype proto =
  ObjectProto | FunctionProto | ArrayProto | StringProto | NumberProto | BooleanProto

datatype val =
    Undefined | Null | VBool bool | VNum int | VStr string | VRef addr
  | VFun string nat | VProto proto

text \<open>
  Values handed in by a caller (query objects, request payloads) are only read, so they
  are plain trees.  \<open>JObj\<close> lists the own enumerable properties in \<^verbatim>\<open>for ... in\<close> order;
  \<open>JOpaque\<close> stands for any object whose constructor is not the bare object constructor
  and that has no enumerable property of its own (a \<^verbatim>\<open>Date\<close>, a \<^verbatim>\<open>Blob\<close>, a \<^verbatim>\<open>File\<close>).
\<close>

datatype jsv =
    JUndefined | JNull | JBool bool | JNum int | JStr string
  | JArr "jsv list" | JObj "(string \<times> jsv) list" | JOpaque string

type_synonym formdata = "(string \<times> jsv) list"

datatype body = NoBody | TextBody string | FormBody formdata

datatype error =
    TypeError
  | SyntaxError
  | UnsupportedResponseType string
  | GenericServerError int string
  | HalError val int
  | CannotFindRef string
  | MissingContentType
  | FetchFailed string

datatype 'a promise = Resolved 'a | Rejected error

record request =
  url :: val
  httpMethod :: val
  body :: body
  headers :: "(string \<times> val) list"

record response =
  ok :: bool
  status :: int
  statusText :: string
  contentHeader :: "string option"
  bodyText :: string

type_synonym fetcher = "request \<Rightarrow> response promise"

record client =
  data :: val
  fetcher :: fetcher
  embeds :: val
  links :: val

datatype obj = Plain "(string \<times> val) list" | Array "val list" | ClientObj client

type_synonym heap = "obj list"

definition lookup :: "heap \<Rightarrow> addr \<Rightarrow> obj option" where
  "lookup h a = (if a < length h then Some (h ! a) else None)"

definition alloc :: "heap \<Rightarrow> obj \<Rightarrow> addr \<times> heap" where
  "alloc h x = (length h, h @ [x])"

subsection \<open>Members inherited from the runtime\<close>

text \<open>
  A member that an object does not have itself is looked up in its prototype.  The
  prototype objects belong to the language runtime; their members are listed here as
  ECMAScript 5.1 and its annex B define them, each function with the value of its
  \<^verbatim>\<open>length\<close>.  Later editions add members to the prototypes of arrays, strings and numbers,
  and none to \<^verbatim>\<open>Object.prototype\<close>.
\<close>

definition members :: "proto \<Rightarrow> (string \<times> val) list" where
  "members p =
     (case p of
        ObjectProto \<Rightarrow>
          [(''constructor'', VFun ''Object'' 1), (''toString'', VFun ''toString'' 0),
           (''toLocaleString'', VFun ''toLocaleString'' 0), (''valueOf'', VFun ''valueOf'' 0),
           (''hasOwnProperty'', VFun ''hasOwnProperty'' 1),
           (''isPrototypeOf'', VFun ''isPrototypeOf'' 1),
           (''propertyIsEnumerable'', VFun ''propertyIsEnumerable'' 1),
           (''__defineGetter__'', VFun ''__defineGetter__'' 2),
           (''__defineSetter__'', VFun ''__defineSetter__'' 2),
           (''__lookupGetter__'', VFun ''__lookupGetter__'' 1),
           (''__lookupSetter__'', VFun ''__lookupSetter__'' 1)]
      | FunctionProto \<Rightarrow>
          [(''length'', VNum 0), (''name'', VStr []),
           (''constructor'', VFun ''Function'' 1), (''toString'', VFun ''toString'' 0),
           (''apply'', VFun ''apply'' 2), (''bind'', VFun ''bind'' 1), (''call'', VFun ''call'' 1)]
      | ArrayProto \<Rightarrow>
          [(''length'', VNum 0),
           (''constructor'', VFun ''Array'' 1), (''toString'', VFun ''toString'' 0),
           (''toLocaleString'', VFun ''toLocaleString'' 0), (''concat'', VFun ''concat'' 1),
           (''join'', VFun ''join'' 1), (''pop'', VFun ''pop'' 0), (''push'', VFun ''push'' 1),
           (''reverse'', VFun ''reverse'' 0), (''shift'', VFun ''shift'' 0),
           (''slice'', VFun ''slice'' 2), (''sort'', VFun ''sort'' 1),
           (''splice'', VFun ''splice'' 2), (''unshift'', VFun ''unshift'' 1),
           (''indexOf'', VFun ''indexOf'' 1), (''lastIndexOf'', VFun ''lastIndexOf'' 1),
           (''every'', VFun ''every'' 1), (''some'', VFun ''some'' 1),
           (''forEach'', VFun ''forEach'' 1), (''map'', VFun ''map'' 1),
           (''filter'', VFun ''filter'' 1), (''reduce'', VFun ''reduce'' 1),
           (''reduceRight'', VFun ''reduceRight'' 1)]
      | StringProto \<Rightarrow>
          [(''length'', VNum 0),
           (''constructor'', VFun ''String'' 1), (''toString'', VFun ''toString'' 0),
           (''valueOf'', VFun ''valueOf'' 0), (''charAt'', VFun ''charAt'' 1),
           (''charCodeAt'', VFun ''charCodeAt'' 1), (''concat'', VFun ''concat'' 1),
           (''indexOf'', VFun ''indexOf'' 1), (''lastIndexOf'', VFun ''lastIndexOf'' 1),
           (''localeCompare'', VFun ''localeCompare'' 1), (''match'', VFun ''match'' 1),
           (''replace'', VFun ''replace'' 2), (''search'', VFun ''search'' 1),
           (''slice'', VFun ''slice'' 2), (''split'', VFun ''split'' 2),
           (''substring'', VFun ''substring'' 2), (''substr'', VFun ''substr'' 2),
           (''toLowerCase'', VFun ''toLowerCase'' 0),
           (''toLocaleLowerCase'', VFun ''toLocaleLowerCase'' 0),
           (''toUpperCase'', VFun ''toUpperCase'' 0),
           (''toLocaleUpperCase'', VFun ''toLocaleUpperCase'' 0), (''trim'', VFun ''trim'' 0),
           (''anchor'', VFun ''anchor'' 1), (''big'', VFun ''big'' 0),
           (''blink'', VFun ''blink'' 0), (''bold'', VFun ''bold'' 0),
           (''fixed'', VFun ''fixed'' 0), (''fontcolor'', VFun ''fontcolor'' 1),
           (''fontsize'', VFun ''fontsize'' 1), (''italics'', VFun ''italics'' 0),
           (''link'', VFun ''link'' 1), (''small'', VFun ''small'' 0),
           (''strike'', VFun ''strike'' 0), (''sub'', VFun ''sub'' 0), (''sup'', VFun ''sup'' 0)]
      | NumberProto \<Rightarrow>
          [(''constructor'', VFun ''Number'' 1), (''toString'', VFun ''toString'' 1),
           (''toLocaleString'', VFun ''toLocaleString'' 0), (''valueOf'', VFun ''valueOf'' 0),
           (''toFixed'', VFun ''toFixed'' 1), (''toExponential'', VFun ''toExponential'' 1),
           (''toPrecision'', VFun ''toPrecision'' 1)]
      | BooleanProto \<Rightarrow>
          [(''constructor'', VFun ''Boolean'' 1), (''toString'', VFun ''toString'' 0),
           (''valueOf'', VFun ''valueOf'' 0)])"

text \<open>
  What a value whose prototype is \<open>p\<close> inherits under the name \<open>k\<close>: the member of \<open>p\<close>,
  or else of \<^verbatim>\<open>Object.prototype\<close>, where the chain ends.  \<^verbatim>\<open>__proto__\<close> is the accessor
  of \<^verbatim>\<open>Object.prototype\<close> that returns the prototype itself.
\<close>

definition inherited :: "proto \<Rightarrow> string \<Rightarrow> val" where
  "inherited p k =
     (if k = ''__proto__'' then VProto p
      else case map_of (members p) k of
             Some v \<Rightarrow> v
           | None \<Rightarrow>
               (if p = ObjectProto then Undefined
                else case map_of (members ObjectProto) k of
                       Some v \<Rightarrow> v
                     | None \<Rightarrow> Undefined))"

text \<open>The names every object inherits from \<^verbatim>\<open>Object.prototype\<close>.\<close>

definition inheritsFromObject :: "string \<Rightarrow> bool" where
  "inheritsFromObject k = (k = ''__proto__'' \<or> k \<in> fst ` set (members ObjectProto))"

subsection \<open>Property access\<close>

definition digit :: "nat \<Rightarrow> char" where
  "digit d = ''0123456789'' ! d"

fun showNat :: "nat \<Rightarrow> string" where
  "showNat n = (if n < 10 then [digit n] else showNat (n div 10) @ [digit (n mod 10)])"

declare showNat.simps [simp del]

definition indexed :: "'a list \<Rightarrow> (string \<times> 'a) list" where
  "indexed xs = zip (map showNat [0 ..< length xs]) xs"

text \<open>
  The members a value has itself: the characters and the length of a string, the members
  of a parsed object, the elements and the length of an array, the \<^verbatim>\<open>length\<close> and \<^verbatim>\<open>name\<close>
  of a function, the listed members of a prototype object.  A client object is never read
  as a document by the program, so its fields are not members here.
\<close>

definition own :: "heap \<Rightarrow> val \<Rightarrow> string \<Rightarrow> val option" where
  "own h v k =
     (case v of
        VStr s \<Rightarrow>
          if k = ''length'' then Some (VNum (int (length s)))
          else map_of (indexed (map (\<lambda>c. VStr [c]) s)) k
      | VRef a \<Rightarrow>
          (case lookup h a of
             Some (Plain kvs) \<Rightarrow> map_of kvs k
           | Some (Array xs) \<Rightarrow>
               if k = ''length'' then Some (VNum (int (length xs))) else map_of (indexed xs) k
           | _ \<Rightarrow> None)
      | VFun nm n \<Rightarrow>
          if k = ''length'' then Some (VNum (int n))
          else if k = ''name'' then Some (VStr nm)
          else None
      | VProto p \<Rightarrow> map_of (members p) k
      | _ \<Rightarrow> None)"

definition prototypeOf :: "heap \<Rightarrow> val \<Rightarrow> proto" where
  "prototypeOf h v =
     (case v of
        VBool b \<Rightarrow> BooleanProto
      | VNum n \<Rightarrow> NumberProto
      | VStr s \<Rightarrow> StringProto
      | VFun nm n \<Rightarrow> FunctionProto
      | VRef a \<Rightarrow> (case lookup h a of Some (Array xs) \<Rightarrow> ArrayProto | _ \<Rightarrow> ObjectProto)
      | _ \<Rightarrow> ObjectProto)"

text \<open>
  The value of the member \<open>k\<close> of a value other than \<^verbatim>\<open>undefined\<close> and \<^verbatim>\<open>null\<close>: the
  value's own member wins over an inherited one, and a name that is neither reads as
  \<^verbatim>\<open>undefined\<close>.  The prototype of every prototype object is \<^verbatim>\<open>Object.prototype\<close>,
  whose own prototype is \<^verbatim>\<open>null\<close>.
\<close>

definition member :: "heap \<Rightarrow> val \<Rightarrow> string \<Rightarrow> val" where
  "member h v k =
     (case own h v k of
        Some x \<Rightarrow> x
      | None \<Rightarrow>
          (case v of
             VProto p \<Rightarrow>
               if p = ObjectProto
               then (if k = ''__proto__'' then Null else Undefined)
               else inherited ObjectProto k
           | _ \<Rightarrow> inherited (prototypeOf h v) k))"

text \<open>
  \<^verbatim>\<open>v[k]\<close> and \<^verbatim>\<open>v.k\<close>: reading a property of \<^verbatim>\<open>undefined\<close> or \<^verbatim>\<open>null\<close> throws a
  \<^verbatim>\<open>TypeError\<close>.
\<close>

definition getProp :: "heap \<Rightarrow> val \<Rightarrow> string \<Rightarrow> error + val" where
  "getProp h v k =
     (case v of
        Undefined \<Rightarrow> Inl TypeError
      | Null \<Rightarrow> Inl TypeError
      | _ \<Rightarrow> Inr (member h v k))"

text \<open>
  \<^verbatim>\<open>delete v.k\<close> removes the own property \<open>k\<close> of the object itself, in place.  It is
  only ever applied to \<^verbatim>\<open>_embedded\<close> and \<^verbatim>\<open>_links\<close>, which arrays and primitives do not
  carry, so there it changes nothing.
\<close>

definition deleteProp :: "heap \<Rightarrow> val \<Rightarrow> string \<Rightarrow> heap" where
  "deleteProp h v k =
     (case v of
        VRef a \<Rightarrow>
          (case lookup h a of
             Some (Plain kvs) \<Rightarrow> h[a := Plain (filter (\<lambda>kv. fst kv \<noteq> k) kvs)]
           | _ \<Rightarrow> h)
      | _ \<Rightarrow> h)"

section \<open>The endpoint client\<close>

text \<open>
  \<^verbatim>\<open>new HalEndpointClient(data, fetcher)\<close>: the two envelope keys are read and deleted
  from \<open>data\<close> itself, and the client keeps the reference to \<open>data\<close>.
\<close>

definition HalEndpointClient :: "heap \<Rightarrow> val \<Rightarrow> fetcher \<Rightarrow> error + (addr \<times> heap)" where
  "HalEndpointClient h d f =
     (case getProp h d ''_embedded'' of
        Inl e \<Rightarrow> Inl e
      | Inr em \<Rightarrow>
          (let h1 = deleteProp h d ''_embedded'' in
           case getProp h1 d ''_links'' of
             Inl e \<Rightarrow> Inl e
           | Inr ln \<Rightarrow>
               (let h2 = deleteProp h1 d ''_links'' in
                Inr (alloc h2 (ClientObj \<lparr>data = d, fetcher = f, embeds = em, links = ln\<rparr>)))))"

definition GetData :: "client \<Rightarrow> val" where
  "GetData c = data c"

section \<open>Classifying a response\<close>

definition halcyonJsonMimeType :: string where
  "halcyonJsonMimeType = ''application/json+halcyon''"

definition jsonMimeType :: string where
  "jsonMimeType = ''application/json''"

text \<open>
  \<^verbatim>\<open>h.length >= m.length && h.substring(0, m.length) === m\<close>: a case-sensitive
  prefix test.
\<close>

definition startsWith :: "string \<Rightarrow> string \<Rightarrow> bool" where
  "startsWith h m = (length m \<le> length h \<and> take (length m) h = m)"

text \<open>
  \<^verbatim>\<open>JSON.parse\<close> is a parameter: it either throws or returns a value, allocating the
  objects of the document in the store.
\<close>

type_synonym jsonParse = "string \<Rightarrow> heap \<Rightarrow> error + (val \<times> heap)"

definition emptyEnvelope :: "heap \<Rightarrow> val \<times> heap" where
  "emptyEnvelope h =
     (case alloc h (Plain [(''_links'', Undefined), (''_embedded'', Undefined)]) of
        (a, h') \<Rightarrow> (VRef a, h'))"

text \<open>
  \<^verbatim>\<open>parseResult\<close>.  \<^verbatim>\<open>headers.get\<close> returns a string or \<^verbatim>\<open>null\<close>; the test
  \<^verbatim>\<open>if (contentHeader)\<close> is false for \<^verbatim>\<open>null\<close> and for the empty string.
\<close>

definition parseResult :: "jsonParse \<Rightarrow> heap \<Rightarrow> response \<Rightarrow> string \<Rightarrow> error + (val \<times> heap)" where
  "parseResult parse h r d =
     (case contentHeader r of
        None \<Rightarrow> Inr (emptyEnvelope h)
      | Some ch \<Rightarrow>
          if ch \<noteq> [] then
            (if startsWith ch halcyonJsonMimeType \<or> (startsWith ch jsonMimeType \<and> \<not> ok r)
             then (if d = [] then Inr (Null, h) else parse d h)
             else Inl (UnsupportedResponseType ch))
          else Inr (emptyEnvelope h))"

text \<open>
  \<^verbatim>\<open>processResult\<close> runs inside \<^verbatim>\<open>response.text().then(...)\<close>, so everything thrown
  there, by \<^verbatim>\<open>parseResult\<close>, by the constructor or by the code itself, rejects the
  promise.  The body text is taken as already read.
\<close>

definition processResult :: "jsonParse \<Rightarrow> heap \<Rightarrow> response \<Rightarrow> fetcher \<Rightarrow> (addr \<times> heap) promise" where
  "processResult parse h r f =
     (case parseResult parse h r (bodyText r) of
        Inl e \<Rightarrow> Rejected e
      | Inr (parsedData, h1) \<Rightarrow>
          if ok r then
            (case HalEndpointClient h1 parsedData f of
               Inl e \<Rightarrow> Rejected e
             | Inr res \<Rightarrow> Resolved res)
          else
            (case getProp h1 parsedData ''message'' of
               Inl e \<Rightarrow> Rejected e
             | Inr m \<Rightarrow>
                 if m \<noteq> Undefined then Rejected (HalError parsedData (status r))
                 else Rejected (GenericServerError (status r) (statusText r))))"

subsection \<open>The second version of the classifier in the source file\<close>

text \<open>
  The source file carries a second \<^verbatim>\<open>HalEndpointClient\<close> whose \<^verbatim>\<open>parseResult\<close> rejects a
  missing content type and reports an unparsable failure as a generic server error; its
  \<^verbatim>\<open>processResult\<close> has the same text as the first.
\<close>

definition parseResult2 :: "jsonParse \<Rightarrow> heap \<Rightarrow> response \<Rightarrow> string \<Rightarrow> error + (val \<times> heap)" where
  "parseResult2 parse h r d =
     (case contentHeader r of
        None \<Rightarrow> Inl MissingContentType
      | Some ch \<Rightarrow>
          if ch = [] then Inl MissingContentType
          else if startsWith ch halcyonJsonMimeType \<or> (startsWith ch jsonMimeType \<and> \<not> ok r)
          then (if d = [] then Inr (Null, h) else parse d h)
          else if \<not> ok r then Inl (GenericServerError (status r) (statusText r))
          else Inl (UnsupportedResponseType ch))"

definition processResult2 :: "jsonParse \<Rightarrow> heap \<Rightarrow> response \<Rightarrow> fetcher \<Rightarrow> (addr \<times> heap) promise" where
  "processResult2 parse h r f =
     (case parseResult2 parse h r (bodyText r) of
        Inl e \<Rightarrow> Rejected e
      | Inr (parsedData, h1) \<Rightarrow>
          if ok r then
            (case HalEndpointClient h1 parsedData f of
               Inl e \<Rightarrow> Rejected e
             | Inr res \<Rightarrow> Resolved res)
          else
            (case getProp h1 parsedData ''message'' of
               Inl e \<Rightarrow> Rejected e
             | Inr m \<Rightarrow>
                 if m \<noteq> Undefined then Rejected (HalError parsedData (status r))
                 else Rejected (GenericServerError (status r) (statusText r))))"

section \<open>Structured server errors\<close>

text \<open>
  A \<^verbatim>\<open>HalError\<close> keeps the parsed error document and the status code.  Its accessors
  read the \<^verbatim>\<open>errors\<close> member of that document in the store.
\<close>

definition hasValidationErrors :: "heap \<Rightarrow> val \<Rightarrow> error + bool" where
  "hasValidationErrors h errorData =
     (case getProp h errorData ''errors'' of
        Inl e \<Rightarrow> Inl e
      | Inr es \<Rightarrow> Inr (es \<noteq> Undefined))"

definition getValidationError :: "heap \<Rightarrow> val \<Rightarrow> string \<Rightarrow> error + val" where
  "getValidationError h errorData name =
     (case hasValidationErrors h errorData of
        Inl e \<Rightarrow> Inl e
      | Inr b \<Rightarrow>
          if b then
            (case getProp h errorData ''errors'' of
               Inl e \<Rightarrow> Inl e
             | Inr es \<Rightarrow> getProp h es name)
          else Inr Undefined)"

definition hasValidationError :: "heap \<Rightarrow> val \<Rightarrow> string \<Rightarrow> error + bool" where
  "hasValidationError h errorData name =
     (case hasValidationErrors h errorData of
        Inl e \<Rightarrow> Inl e
      | Inr b \<Rightarrow>
          if b then
            (case getProp h errorData ''errors'' of
               Inl e \<Rightarrow> Inl e
             | Inr es \<Rightarrow>
                 (case getProp h es name of
                    Inl e \<Rightarrow> Inl e
                  | Inr v \<Rightarrow> Inr (v \<noteq> Undefined)))
          else Inr False)"

section \<open>Embedded collections\<close>

text \<open>
  An \<^verbatim>\<open>Embed\<close> holds whatever \<^verbatim>\<open>this.embeds[name]\<close> was when it was built; the field is
  called \<open>rawDocuments\<close> here because \<open>embeds\<close> already names the client's field.
\<close>

record Embed =
  name :: string
  rawDocuments :: val
  embedFetcher :: fetcher

subsection \<open>The loop bound\<close>

text \<open>
  The test \<^verbatim>\<open>i < this.embeds.length\<close> compares a number with whatever \<^verbatim>\<open>length\<close> reads
  as, converted to a number: \<^verbatim>\<open>undefined\<close> gives NaN (here \<open>None\<close>), for which the test
  is false; \<^verbatim>\<open>null\<close> and booleans give 0 and 1; a string is trimmed and read as a decimal
  literal; an object is first converted to a string.  Since numbers are integers here, a
  string that denotes a fraction, carries an exponent or a radix prefix, or is
  \<^verbatim>\<open>Infinity\<close>, has no number.
\<close>

definition isSpace :: "char \<Rightarrow> bool" where
  "isSpace c = (c \<in> set [CHR 0x20, CHR 0x09, CHR 0x0A, CHR 0x0B, CHR 0x0C, CHR 0x0D])"

definition isDigit :: "char \<Rightarrow> bool" where
  "isDigit c = (c \<in> set ''0123456789'')"

definition trimSpaces :: "string \<Rightarrow> string" where
  "trimSpaces s = rev (dropWhile isSpace (rev (dropWhile isSpace s)))"

definition digitsToNat :: "string \<Rightarrow> nat" where
  "digitsToNat ds = foldl (\<lambda>acc c. 10 * acc + (of_char c - 48)) 0 ds"

definition stringToNumber :: "string \<Rightarrow> int option" where
  "stringToNumber s =
     (case trimSpaces s of
        [] \<Rightarrow> Some 0
      | c # ds \<Rightarrow>
          if c = CHR ''-'' \<and> ds \<noteq> [] \<and> list_all isDigit ds then Some (- int (digitsToNat ds))
          else if c = CHR ''+'' \<and> ds \<noteq> [] \<and> list_all isDigit ds then Some (int (digitsToNat ds))
          else if list_all isDigit (c # ds) then Some (int (digitsToNat (c # ds)))
          else None)"

definition showInt :: "int \<Rightarrow> string" where
  "showInt i = (if i < 0 then CHR ''-'' # showNat (nat (- i)) else showNat (nat i))"

fun joinStrings :: "(error + string) list \<Rightarrow> error + string" where
  "joinStrings [] = Inr []"
| "joinStrings [x] = x"
| "joinStrings (x # y # ys) =
     (case x of
        Inl e \<Rightarrow> Inl e
      | Inr s \<Rightarrow>
          (case joinStrings (y # ys) of
             Inl e \<Rightarrow> Inl e
           | Inr t \<Rightarrow> Inr (s @ '','' @ t)))"

text \<open>
  The string of a value.  An array is the join of its elements, where \<^verbatim>\<open>undefined\<close> and
  \<^verbatim>\<open>null\<close> count as empty; a parsed object is \<^verbatim>\<open>[object Object]\<close>, unless it has a member
  \<^verbatim>\<open>toString\<close> of its own, which is not a function and makes the conversion throw.  The
  text of a built-in function is the runtime's choice; it never denotes a number.  The
  first argument bounds the nesting: a parsed document is a tree, and one more than the
  number of objects in the store is enough for it.
\<close>

fun toStr :: "nat \<Rightarrow> heap \<Rightarrow> val \<Rightarrow> error + string" where
  "toStr 0 h v = Inr []"
| "toStr (Suc n) h v =
     (case v of
        Undefined \<Rightarrow> Inr ''undefined''
      | Null \<Rightarrow> Inr ''null''
      | VBool b \<Rightarrow> Inr (if b then ''true'' else ''false'')
      | VNum i \<Rightarrow> Inr (showInt i)
      | VStr s \<Rightarrow> Inr s
      | VFun nm k \<Rightarrow> Inr (''function '' @ nm @ ''() { [native code] }'')
      | VProto p \<Rightarrow>
          Inr (case p of
                 ObjectProto \<Rightarrow> ''[object Object]''
               | FunctionProto \<Rightarrow> ''function () { [native code] }''
               | ArrayProto \<Rightarrow> []
               | StringProto \<Rightarrow> []
               | NumberProto \<Rightarrow> ''0''
               | BooleanProto \<Rightarrow> ''false'')
      | VRef a \<Rightarrow>
          (case lookup h a of
             Some (Array xs) \<Rightarrow>
               joinStrings
                 (map (\<lambda>x. if x = Undefined \<or> x = Null then Inr [] else toStr n h x) xs)
           | Some (Plain kvs) \<Rightarrow>
               if ''toString'' \<in> fst ` set kvs then Inl TypeError else Inr ''[object Object]''
           | _ \<Rightarrow> Inr ''[object Object]''))"

definition toNumber :: "heap \<Rightarrow> val \<Rightarrow> error + int option" where
  "toNumber h v =
     (case v of
        Undefined \<Rightarrow> Inr None
      | Null \<Rightarrow> Inr (Some 0)
      | VBool b \<Rightarrow> Inr (Some (if b then 1 else 0))
      | VNum i \<Rightarrow> Inr (Some i)
      | VStr s \<Rightarrow> Inr (stringToNumber s)
      | VProto p \<Rightarrow> Inr (if p = ObjectProto \<or> p = FunctionProto then None else Some 0)
      | _ \<Rightarrow>
          (case toStr (Suc (length h)) h v of
             Inl e \<Rightarrow> Inl e
           | Inr s \<Rightarrow> Inr (stringToNumber s)))"

text \<open>
  The elements the loop \<^verbatim>\<open>for (i = 0; i < this.embeds.length; ++i) ... this.embeds[i]\<close>
  visits.  The body of the loop never changes the length or an indexed element of the
  value it runs over (it only deletes \<^verbatim>\<open>_embedded\<close> and \<^verbatim>\<open>_links\<close>), so they are read
  once.  The indexed members of an array are its elements and those of a string its
  characters; for any other value they are read by name.
\<close>

definition elements :: "heap \<Rightarrow> val \<Rightarrow> error + val list" where
  "elements h v =
     (case getProp h v ''length'' of
        Inl e \<Rightarrow> Inl e
      | Inr len \<Rightarrow>
          (case toNumber h len of
             Inl e \<Rightarrow> Inl e
           | Inr None \<Rightarrow> Inr []
           | Inr (Some n) \<Rightarrow>
               (case v of
                  VStr s \<Rightarrow> Inr (map (\<lambda>c. VStr [c]) s)
                | VRef a \<Rightarrow>
                    (case lookup h a of
                       Some (Array xs) \<Rightarrow> Inr xs
                     | _ \<Rightarrow> Inr (map (\<lambda>i. member h v (showNat i)) [0 ..< nat n]))
                | _ \<Rightarrow> Inr (map (\<lambda>i. member h v (showNat i)) [0 ..< nat n]))))"

definition push :: "heap \<Rightarrow> addr \<Rightarrow> val \<Rightarrow> heap" where
  "push h arr v =
     (case lookup h arr of
        Some (Array xs) \<Rightarrow> h[arr := Array (xs @ [v])]
      | _ \<Rightarrow> h)"

fun pushClients :: "heap \<Rightarrow> addr \<Rightarrow> val list \<Rightarrow> fetcher \<Rightarrow> error + heap" where
  "pushClients h arr [] f = Inr h"
| "pushClients h arr (d # ds) f =
     (case HalEndpointClient h d f of
        Inl e \<Rightarrow> Inl e
      | Inr (c, h1) \<Rightarrow> pushClients (push h1 arr (VRef c)) arr ds f)"

definition GetAllClients :: "heap \<Rightarrow> Embed \<Rightarrow> error + (addr \<times> heap)" where
  "GetAllClients h e =
     (case alloc h (Array []) of
        (embeddedClients, h0) \<Rightarrow>
          (case elements h0 (rawDocuments e) of
             Inl err \<Rightarrow> Inl err
           | Inr ds \<Rightarrow>
               (case pushClients h0 embeddedClients ds (embedFetcher e) of
                  Inl err \<Rightarrow> Inl err
                | Inr h1 \<Rightarrow> Inr (embeddedClients, h1))))"

definition GetEmbed :: "heap \<Rightarrow> client \<Rightarrow> string \<Rightarrow> error + Embed" where
  "GetEmbed h c nm =
     (case getProp h (embeds c) nm of
        Inl e \<Rightarrow> Inl e
      | Inr v \<Rightarrow> Inr \<lparr>name = nm, rawDocuments = v, embedFetcher = fetcher c\<rparr>)"

definition HasEmbed :: "heap \<Rightarrow> client \<Rightarrow> string \<Rightarrow> error + bool" where
  "HasEmbed h c nm =
     (if embeds c \<noteq> Undefined then
        (case getProp h (embeds c) nm of
           Inl e \<Rightarrow> Inl e
         | Inr v \<Rightarrow> Inr (v \<noteq> Undefined))
      else Inr False)"

section \<open>Links\<close>

definition GetLink :: "heap \<Rightarrow> client \<Rightarrow> string \<Rightarrow> error + val" where
  "GetLink h c ref = getProp h (links c) ref"

definition HasLink :: "heap \<Rightarrow> client \<Rightarrow> string \<Rightarrow> error + bool" where
  "HasLink h c ref =
     (if links c \<noteq> Undefined then
        (case getProp h (links c) ref of
           Inl e \<Rightarrow> Inl e
         | Inr v \<Rightarrow> Inr (v \<noteq> Undefined))
      else Inr False)"

definition HasLinkDoc :: "heap \<Rightarrow> client \<Rightarrow> string \<Rightarrow> error + bool" where
  "HasLinkDoc h c ref = HasLink h c (ref @ ''.Docs'')"

text \<open>
  \<^verbatim>\<open>new Uri(href); uri.setQueryFromObject(query); uri.build()\<close> belongs to another
  library and is a parameter.
\<close>

type_synonym uriBuild = "val \<Rightarrow> jsv \<Rightarrow> string"

definition GetQueryLink :: "uriBuild \<Rightarrow> heap \<Rightarrow> val \<Rightarrow> jsv \<Rightarrow> error + (val \<times> heap)" where
  "GetQueryLink uri h link query =
     (if query \<noteq> JUndefined \<and> query \<noteq> JNull then
        (case getProp h link ''href'' of
           Inl e \<Rightarrow> Inl e
         | Inr hr \<Rightarrow>
             (case getProp h link ''method'' of
                Inl e \<Rightarrow> Inl e
              | Inr m \<Rightarrow>
                  (case alloc h (Plain [(''href'', VStr (uri hr query)), (''method'', m)]) of
                     (a, h') \<Rightarrow> Inr (VRef a, h'))))
      else Inr (link, h))"

section \<open>Requests\<close>

record LoadOptions =
  reqBody :: body
  contentType :: "string option"

text \<open>\<^verbatim>\<open>options || {}\<close> when no options are passed.\<close>

definition noOptions :: LoadOptions where
  "noOptions = \<lparr>reqBody = NoBody, contentType = None\<rparr>"

definition requestHeaders :: "LoadOptions \<Rightarrow> (string \<times> val) list" where
  "requestHeaders options =
     [(''Accept'', VStr halcyonJsonMimeType), (''bearer'', Null)]
     @ (case contentType options of
          None \<Rightarrow> []
        | Some ct \<Rightarrow> [(''Content-Type'', VStr ct)])"

text \<open>
  \<^verbatim>\<open>LoadRaw\<close> reads \<^verbatim>\<open>link.href\<close> and \<^verbatim>\<open>link.method\<close> before it calls the fetcher, so
  a \<^verbatim>\<open>null\<close> link throws at once; otherwise the result is the fetcher's promise.
\<close>

definition LoadRaw :: "heap \<Rightarrow> val \<Rightarrow> fetcher \<Rightarrow> LoadOptions \<Rightarrow> error + response promise" where
  "LoadRaw h link f options =
     (case getProp h link ''href'' of
        Inl e \<Rightarrow> Inl e
      | Inr hr \<Rightarrow>
          (case getProp h link ''method'' of
             Inl e \<Rightarrow> Inl e
           | Inr m \<Rightarrow>
               Inr (f \<lparr>url = hr, httpMethod = m, body = reqBody options,
                        headers = requestHeaders options\<rparr>)))"

definition Load ::
  "jsonParse \<Rightarrow> heap \<Rightarrow> val \<Rightarrow> fetcher \<Rightarrow> LoadOptions \<Rightarrow> error + (addr \<times> heap) promise" where
  "Load parse h link f options =
     (case LoadRaw h link f options of
        Inl e \<Rightarrow> Inl e
      | Inr p \<Rightarrow>
          Inr (case p of
                 Rejected e \<Rightarrow> Rejected e
               | Resolved r \<Rightarrow> processResult parse h r f))"

section \<open>The multipart encoder\<close>

text \<open>
  The properties \<^verbatim>\<open>for (var key in inJSON)\<close> enumerates: the members of an object, the
  indices of an array or of a string, nothing for the other values.
\<close>

fun enumProps :: "jsv \<Rightarrow> (string \<times> jsv) list" where
  "enumProps (JObj kvs) = kvs"
| "enumProps (JArr xs) = indexed xs"
| "enumProps (JStr s) = indexed (map (\<lambda>c. JStr [c]) s)"
| "enumProps _ = []"

fun truthy :: "jsv \<Rightarrow> bool" where
  "truthy JUndefined = False"
| "truthy JNull = False"
| "truthy (JBool b) = b"
| "truthy (JNum n) = (n \<noteq> 0)"
| "truthy (JStr s) = (s \<noteq> [])"
| "truthy _ = True"

text \<open>
  \<^verbatim>\<open>value.constructor === {}.constructor\<close>, for a value that passed the truth test.
  An object reads \<^verbatim>\<open>constructor\<close> from itself first, so a key/value object passes
  only if it has no member of that name; every other value has a constructor of its own
  kind.
\<close>

fun isPlainObject :: "jsv \<Rightarrow> bool" where
  "isPlainObject (JObj kvs) = (''constructor'' \<notin> fst ` set kvs)"
| "isPlainObject _ = False"

text \<open>
  \<^verbatim>\<open>constructedKey = key; if (parentKey) constructedKey = parentKey + "." + key\<close>: the
  test is false for a missing parent key and for the empty string.
\<close>

definition constructKey :: "string option \<Rightarrow> string \<Rightarrow> string" where
  "constructKey parentKey key =
     (case parentKey of
        None \<Rightarrow> key
      | Some p \<Rightarrow> if p \<noteq> [] then p @ ''.'' @ key else key)"

text \<open>
  \<^verbatim>\<open>jsonToFormData\<close> and its loop.  The form data is the list of appended fields, in
  order; the callers start from the empty form and no parent key.
\<close>

function jsonToFormData :: "jsv \<Rightarrow> formdata \<Rightarrow> string option \<Rightarrow> formdata"
  and forIn :: "(string \<times> jsv) list \<Rightarrow> formdata \<Rightarrow> string option \<Rightarrow> formdata"
where
  "jsonToFormData inJSON form_data parentKey = forIn (enumProps inJSON) form_data parentKey"
| "forIn [] form_data parentKey = form_data"
| "forIn ((key, v) # rest) form_data parentKey =
     (let constructedKey = constructKey parentKey key in
      if truthy v \<and> isPlainObject v
      then forIn rest (jsonToFormData v form_data (Some constructedKey)) parentKey
      else forIn rest (form_data @ [(constructedKey, v)]) parentKey)"
  by pat_completeness auto
termination
  apply (relation "measure (\<lambda>x. case x of
      Inl (v, fd, pk) \<Rightarrow> 2 * size_list (size_prod (\<lambda>_. 0) size) (enumProps v) + 1
    | Inr (kvs, fd, pk) \<Rightarrow> 2 * size_list (size_prod (\<lambda>_. 0) size) kvs)")
      apply simp
     apply simp
  subgoal for key v rest form_data parentKey x
    by (cases v) simp_all
   apply simp
  apply simp
  done

section \<open>Navigation\<close>

text \<open>
  The library functions the navigation operations call: \<^verbatim>\<open>JSON.parse\<close>,
  \<^verbatim>\<open>JSON.stringify\<close> (giving the request body) and the \<^verbatim>\<open>Uri\<close> rewrite.

  Every operation returns \<open>Inl\<close> for what is thrown before a promise exists and \<open>Inr\<close>
  for the promise.  The operations that take a query first build the query link, which
  may allocate a new link object.
\<close>

record env =
  JSON_parse :: jsonParse
  JSON_stringify :: "jsv \<Rightarrow> body"
  Uri_build :: uriBuild

definition LoadLink ::
  "env \<Rightarrow> heap \<Rightarrow> client \<Rightarrow> string \<Rightarrow> error + (addr \<times> heap) promise" where
  "LoadLink E h c ref =
     (case HasLink h c ref of
        Inl e \<Rightarrow> Inl e
      | Inr b \<Rightarrow>
          if b then
            (case GetLink h c ref of
               Inl e \<Rightarrow> Inl e
             | Inr link \<Rightarrow>
                 Load (JSON_parse E) h link (fetcher c) noOptions)
          else Inl (CannotFindRef ref))"












definition LoadLinkDoc :: "env \<Rightarrow> heap \<Rightarrow> client \<Rightarrow> string \<Rightarrow> error + (addr \<times> heap) promise" where
  "LoadLinkDoc E h c ref = LoadLink E h c (ref @ ''.Docs'')"

section \<open>The multipart encoder in the words of the specification\<close>

text \<open>
  This definition is not taken from the code: it writes down what the specification says
  the encoder produces, to be compared with \<open>jsonToFormData\<close>.  A value whose own
  constructor is the bare object constructor (a key/value object with no \<^verbatim>\<open>constructor\<close>
  member standing in front of it) is recursed into with the prefix extended by the key;
  every other value gives one field, named \<open>p.k\<close> under the accumulated prefix \<open>p\<close> and
  \<open>k\<close> at the top level, with the value as it is.
\<close>

definition specKey :: "string option \<Rightarrow> string \<Rightarrow> string" where
  "specKey p k = (case p of None \<Rightarrow> k | Some q \<Rightarrow> q @ ''.'' @ k)"

fun specFields :: "string option \<Rightarrow> (string \<times> jsv) list \<Rightarrow> formdata" where
  "specFields p [] = []"
| "specFields p ((k, JObj kvs) # rest) =
     (if ''constructor'' \<in> fst ` set kvs then (specKey p k, JObj kvs) # specFields p rest
      else specFields (Some (specKey p k)) kvs @ specFields p rest)"
| "specFields p ((k, v) # rest) = (specKey p k, v) # specFields p rest"

section \<open>Sample inputs\<close>

definition nestedForm :: "(string \<times> jsv) list" where
  "nestedForm =
     [(''a'', JObj [(''b'', JNum 1), (''c'', JStr ''s'')]), (''d'', JArr [JNum 1, JNum 2])]"

text \<open>Concrete collaborators and responses on which the properties below are run.\<close>

definition offline :: fetcher where
  "offline req = Rejected (FetchFailed ''offline'')"

definition respondWith :: "response \<Rightarrow> fetcher" where
  "respondWith r req = Resolved r"

definition parseFails :: jsonParse where
  "parseFails d h = Inl SyntaxError"

definition emptyHalcyonOk :: response where
  "emptyHalcyonOk =
     \<lparr>ok = True, status = 200, statusText = ''OK'',
      contentHeader = Some ''application/json+halcyon'', bodyText = []\<rparr>"

definition okNoContentType :: response where
  "okNoContentType =
     \<lparr>ok = True, status = 200, statusText = ''OK'', contentHeader = None, bodyText = ''{}''\<rparr>"

definition okEmptyContentType :: response where
  "okEmptyContentType =
     \<lparr>ok = True, status = 200, statusText = ''OK'', contentHeader = Some [], bodyText = ''{}''\<rparr>"

definition okPlainJson :: response where
  "okPlainJson =
     \<lparr>ok = True, status = 200, statusText = ''OK'',
      contentHeader = Some ''application/json'', bodyText = ''{}''\<rparr>"

definition failedTextPlain :: response where
  "failedTextPlain =
     \<lparr>ok = False, status = 500, statusText = ''Internal Server Error'',
      contentHeader = Some ''text/plain'', bodyText = ''boom''\<rparr>"

definition failedEmptyJson :: response where
  "failedEmptyJson =
     \<lparr>ok = False, status = 500, statusText = ''Internal Server Error'',
      contentHeader = Some ''application/json'', bodyText = []\<rparr>"

definition selfLinkHeap :: heap where
  "selfLinkHeap = [Plain [(''href'', VStr ''/a''), (''method'', VStr ''GET'')]]"

text \<open>
  A store holding one parsed document (address 0) with a link table (1), an embedded map
  (2) whose relation \<open>items\<close> is an array (4) of one raw document (5) that carries the
  link table itself.
\<close>

definition sampleHeap :: heap where
  "sampleHeap =
     [Plain [(''_links'', VRef 1), (''name'', VStr ''x''), (''_embedded'', VRef 2)],
      Plain [(''self'', VRef 3)],
      Plain [(''items'', VRef 4)],
      Plain [(''href'', VStr ''/a''), (''method'', VStr ''GET'')],
      Array [VRef 5],
      Plain [(''_links'', VRef 1), (''id'', VNum 7)]]"

definition sampleUri :: uriBuild where
  "sampleUri href query = ''/a?y=2''"

definition sampleStringify :: "jsv \<Rightarrow> body" where
  "sampleStringify v = TextBody ''{}''"

definition sampleEnv :: env where
  "sampleEnv =
     \<lparr>JSON_parse = parseFails, JSON_stringify = sampleStringify, Uri_build = sampleUri\<rparr>"

text \<open>
  The client of the document at address 0 of \<open>sampleHeap\<close>, the client of the raw
  document at address 5, which has links but no embedded map, and two clients of the object
  at address 3: one whose link table and embedded map are \<^verbatim>\<open>null\<close>, one that has neither.
\<close>

definition linkedClient :: client where
  "linkedClient = \<lparr>data = VRef 0, fetcher = offline, embeds = VRef 2, links = VRef 1\<rparr>"

definition noEmbedClient :: client where
  "noEmbedClient = \<lparr>data = VRef 5, fetcher = offline, embeds = Undefined, links = VRef 1\<rparr>"

definition nullLinksClient :: client where
  "nullLinksClient = \<lparr>data = VRef 3, fetcher = offline, embeds = Null, links = Null\<rparr>"


text \<open>
  The embed collection of the relation \<open>items\<close> of the sample document, the client a
  second enumeration builds for its raw document, and the store after one and after two
  calls of \<^verbatim>\<open>GetAllClients\<close>.
\<close>

definition itemsEmbed :: Embed where
  "itemsEmbed = \<lparr>name = ''items'', rawDocuments = VRef 4, embedFetcher = offline\<rparr>"

definition strippedClient :: client where
  "strippedClient = \<lparr>data = VRef 5, fetcher = offline, embeds = Undefined, links = Undefined\<rparr>"

definition afterFirstCall :: heap where
  "afterFirstCall =
     [Plain [(''_links'', VRef 1), (''name'', VStr ''x''), (''_embedded'', VRef 2)],
      Plain [(''self'', VRef 3)],
      Plain [(''items'', VRef 4)],
      Plain [(''href'', VStr ''/a''), (''method'', VStr ''GET'')],
      Array [VRef 5],
      Plain [(''id'', VNum 7)],
      Array [VRef 7],
      ClientObj noEmbedClient]"

definition afterSecondCall :: heap where
  "afterSecondCall = afterFirstCall @ [Array [VRef 9], ClientObj strippedClient]"

text \<open>
  Two stand-ins for \<^verbatim>\<open>JSON.parse\<close> that allocate a fixed document, and the responses
  they belong to: a structured server error and a hypermedia document.
\<close>

definition parseErrorDoc :: jsonParse where
  "parseErrorDoc d h =
     Inr (VRef (length h),
          h @ [Plain [(''message'', VStr ''bad''), (''errors'', VRef (Suc (length h)))],
               Plain [(''name'', VStr ''required'')]])"

definition failedValidation :: response where
  "failedValidation =
     \<lparr>ok = False, status = 400, statusText = ''Bad Request'',
      contentHeader = Some ''application/json; charset=utf-8'', bodyText = ''(error document)''\<rparr>"

definition parseItemDoc :: jsonParse where
  "parseItemDoc d h =
     Inr (VRef (length h), h @ [Plain [(''id'', VNum 7), (''_links'', VRef 1)]])"

definition okHalcyonItem :: response where
  "okHalcyonItem =
     \<lparr>ok = True, status = 200, statusText = ''OK'',
      contentHeader = Some ''application/json+halcyon; charset=utf-8'',
      bodyText = ''(item document)''\<rparr>"

section \<open>Properties of property access\<close>

lemmas reads = getProp_def member_def own_def prototypeOf_def inherited_def members_def

text \<open>
  No prototype has a member with one of the names the client reads on a document: they
  can only be members of the document itself.
\<close>

lemma members_reserved_names:
  "map_of (members p) ''_links'' = None"
  "map_of (members p) ''_embedded'' = None"
  "map_of (members p) ''message'' = None"
  "map_of (members p) ''href'' = None"
  "map_of (members p) ''method'' = None"
  "map_of (members p) ''errors'' = None"
  by (cases p; simp add: members_def)+

lemma members_reserved:
  assumes "k \<in> {''_links'', ''_embedded'', ''message'', ''href'', ''method'', ''errors''}"
  shows "map_of (members p) k = None"
  using assms by (elim insertE emptyE) (simp_all only: members_reserved_names)

lemma reserved_not_index:
  assumes "k \<in> {''_links'', ''_embedded'', ''message'', ''href'', ''method'', ''errors''}"
  shows "\<not> list_all isDigit k" and "k \<noteq> ''length''" and "k \<noteq> ''name''" and "k \<noteq> ''__proto__''"
  using assms by (elim insertE emptyE; simp add: isDigit_def)+

lemma inherited_reserved:
  assumes "k \<in> {''_links'', ''_embedded'', ''message'', ''href'', ''method'', ''errors''}"
  shows "inherited p k = Undefined"
  using reserved_not_index(4) [OF assms]
  by (simp add: inherited_def members_reserved [OF assms])

lemma digit_isDigit: "d < 10 \<Longrightarrow> isDigit (digit d)"
  unfolding digit_def isDigit_def by (rule nth_mem) simp

lemma showNat_digits: "c \<in> set (showNat n) \<Longrightarrow> isDigit c"
proof (induction n rule: showNat.induct)
  case (1 n)
  show ?case
  proof (cases "n < 10")
    case True
    with "1.prems" show ?thesis by (auto simp: showNat.simps [of n] digit_isDigit)
  next
    case False
    with "1.prems" have "c \<in> set (showNat (n div 10)) \<or> c = digit (n mod 10)"
      by (auto simp: showNat.simps [of n])
    then show ?thesis
    proof
      assume "c \<in> set (showNat (n div 10))"
      with False "1.IH" show ?thesis by simp
    next
      assume "c = digit (n mod 10)"
      then show ?thesis by (simp add: digit_isDigit)
    qed
  qed
qed

lemma showNat_nonempty: "showNat n \<noteq> []"
  by (simp add: showNat.simps [of n])

text \<open>An index is never a name that holds a character other than a digit.\<close>

lemma showNat_neq:
  assumes "\<not> list_all isDigit k"
  shows "showNat n \<noteq> k"
proof
  assume "showNat n = k"
  then have "list_all isDigit k" using showNat_digits [of _ n] by (auto simp: list_all_iff)
  with assms show False by simp
qed

lemma indexed_none:
  assumes "\<not> list_all isDigit k"
  shows "map_of (indexed xs) k = None"
proof -
  have "k \<notin> set (map showNat [0 ..< length xs])"
    using showNat_neq [OF assms] by auto
  moreover have "fst ` set (indexed xs) \<subseteq> set (map showNat [0 ..< length xs])"
    by (auto simp: indexed_def dest: set_zip_leftD)
  ultimately have "k \<notin> fst ` set (indexed xs)" by blast
  then show ?thesis by (simp add: map_of_eq_None_iff)
qed

lemma getProp_total:
  "d \<noteq> Undefined \<Longrightarrow> d \<noteq> Null \<Longrightarrow> getProp h d k = Inr (member h d k)"
  by (cases d) (simp_all add: getProp_def)

lemma getProp_null:
  "getProp h Undefined k = Inl TypeError" "getProp h Null k = Inl TypeError"
  by (simp_all add: getProp_def)

lemma member_Plain:
  "lookup h a = Some (Plain kvs) \<Longrightarrow>
   member h (VRef a) k = (case map_of kvs k of Some x \<Rightarrow> x | None \<Rightarrow> inherited ObjectProto k)"
  by (simp add: member_def own_def prototypeOf_def split: option.splits)

lemma lookup_append_old: "a < length h \<Longrightarrow> lookup (h @ [x]) a = lookup h a"
  by (simp add: lookup_def nth_append)

lemma lookup_append_new: "lookup (h @ [x]) (length h) = Some x"
  by (simp add: lookup_def)

lemma lookup_Some_less: "lookup h b = Some x \<Longrightarrow> b < length h"
  by (simp add: lookup_def split: if_splits)

lemma length_deleteProp [simp]: "length (deleteProp h v k) = length h"
  by (simp add: deleteProp_def split: val.splits option.splits obj.splits)

lemma lookup_deleteProp_other:
  "v \<noteq> VRef b \<Longrightarrow> lookup (deleteProp h v k) b = lookup h b"
  by (auto simp: deleteProp_def lookup_def split: val.splits option.splits obj.splits)

lemma lookup_deleteProp_Plain:
  "lookup h a = Some (Plain kvs) \<Longrightarrow>
   lookup (deleteProp h (VRef a) k) a = Some (Plain (filter (\<lambda>kv. fst kv \<noteq> k) kvs))"
  by (auto simp: deleteProp_def lookup_def split: if_splits)

lemma deleteProp_not_Plain:
  "(\<And>kvs. lookup h a \<noteq> Some (Plain kvs)) \<Longrightarrow> deleteProp h (VRef a) k = h"
  by (auto simp: deleteProp_def split: option.splits obj.splits)

lemma map_of_filter_other:
  "k \<noteq> k' \<Longrightarrow> map_of (filter (\<lambda>kv. fst kv \<noteq> k') kvs) k = map_of kvs k"
  by (induction kvs) auto

lemma map_of_filter_same:
  "map_of (filter (\<lambda>kv. fst kv \<noteq> k) kvs) k = None"
  by (induction kvs) auto

text \<open>
  A client object and an address that holds nothing have no members of their own, so
  allocating a client changes no read.
\<close>

lemma member_append_client:
  "member (h @ [ClientObj cl]) d k = member h d k"
  by (cases d)
     (auto simp: member_def own_def prototypeOf_def lookup_def nth_append
           split: option.splits obj.splits)

lemma getProp_append_client:
  "getProp (h @ [ClientObj cl]) d k = getProp h d k"
  by (cases d) (simp_all add: getProp_def member_append_client)

lemma member_deleteProp_other:
  "k \<noteq> k' \<Longrightarrow> member (deleteProp h d k') d k = member h d k"
  by (cases d)
     (auto simp: member_def own_def prototypeOf_def deleteProp_def lookup_def map_of_filter_other
           split: option.splits obj.splits)

lemma getProp_deleteProp_other:
  "k \<noteq> k' \<Longrightarrow> getProp (deleteProp h d k') d k = getProp h d k"
  by (cases d) (simp_all add: getProp_def member_deleteProp_other)

lemma member_deleted:
  assumes "k = ''_links'' \<or> k = ''_embedded''"
  shows "member (deleteProp h d k) d k = Undefined"
proof -
  have r: "k \<in> {''_links'', ''_embedded'', ''message'', ''href'', ''method'', ''errors''}"
    using assms by auto
  note f = inherited_reserved [OF r] members_reserved [OF r] indexed_none [OF reserved_not_index(1) [OF r]]
    reserved_not_index(2-4) [OF r]
  show ?thesis
    by (cases d)
       (auto simp: member_def own_def prototypeOf_def deleteProp_def lookup_def
             map_of_filter_same f split: option.splits obj.splits)
qed

lemma getProp_deleted:
  assumes "d \<noteq> Undefined" and "d \<noteq> Null" and "k = ''_links'' \<or> k = ''_embedded''"
  shows "getProp (deleteProp h d k) d k = Inr Undefined"
  using assms by (simp add: getProp_total member_deleted)

section \<open>Properties of the response classifier\<close>

lemma startsWith_nonempty:
  "startsWith ch halcyonJsonMimeType \<Longrightarrow> ch \<noteq> []"
  "startsWith ch jsonMimeType \<Longrightarrow> ch \<noteq> []"
  by (auto simp: startsWith_def halcyonJsonMimeType_def jsonMimeType_def)

lemma HalEndpointClient_null:
  "HalEndpointClient h Null f = Inl TypeError"
  "HalEndpointClient h Undefined f = Inl TypeError"
  by (simp_all add: HalEndpointClient_def reads)

text \<open>
  C10.  A successful response that carries the hypermedia content type and an empty body:
  \<^verbatim>\<open>parseResult\<close> returns the null document without an error, the constructor then
  reads \<^verbatim>\<open>data._embedded\<close> of \<^verbatim>\<open>null\<close>, and so the promise of \<^verbatim>\<open>processResult\<close>, and with it
  the promise of \<^verbatim>\<open>Load\<close>, is rejected with a \<^verbatim>\<open>TypeError\<close>; no client is produced.
\<close>

theorem empty_success_body_rejects:
  assumes "ok r" and "contentHeader r = Some ch" and "startsWith ch halcyonJsonMimeType"
    and "bodyText r = []"
  shows "parseResult parse h r (bodyText r) = Inr (Null, h)
       \<and> processResult parse h r f = Rejected TypeError
       \<and> (LoadRaw h link f options = Inr (Resolved r)
            \<longrightarrow> Load parse h link f options = Inr (Rejected TypeError))"
proof -
  have ne: "ch \<noteq> []" using assms(3) by (rule startsWith_nonempty)
  have p: "parseResult parse h r (bodyText r) = Inr (Null, h)"
    using assms ne by (simp add: parseResult_def)
  have q: "processResult parse h r f = Rejected TypeError"
    using p assms(1) by (simp add: processResult_def HalEndpointClient_null)
  show ?thesis using p q by (simp add: Load_def)
qed

theorem empty_success_body_rejects_witness:
  "ok emptyHalcyonOk
   \<and> contentHeader emptyHalcyonOk = Some ''application/json+halcyon''
   \<and> startsWith ''application/json+halcyon'' halcyonJsonMimeType
   \<and> bodyText emptyHalcyonOk = []
   \<and> LoadRaw selfLinkHeap (VRef 0) (respondWith emptyHalcyonOk) noOptions
       = Inr (Resolved emptyHalcyonOk)
   \<and> parseResult parseFails selfLinkHeap emptyHalcyonOk (bodyText emptyHalcyonOk)
       = Inr (Null, selfLinkHeap)
   \<and> processResult parseFails selfLinkHeap emptyHalcyonOk (respondWith emptyHalcyonOk)
       = Rejected TypeError
   \<and> Load parseFails selfLinkHeap (VRef 0) (respondWith emptyHalcyonOk) noOptions
       = Inr (Rejected TypeError)"
proof -
  have a: "ok emptyHalcyonOk" by (simp add: emptyHalcyonOk_def)
  have b: "contentHeader emptyHalcyonOk = Some ''application/json+halcyon''"
    by (simp add: emptyHalcyonOk_def)
  have c: "startsWith ''application/json+halcyon'' halcyonJsonMimeType"
    by (simp add: startsWith_def halcyonJsonMimeType_def)
  have d: "bodyText emptyHalcyonOk = []" by (simp add: emptyHalcyonOk_def)
  have e: "LoadRaw selfLinkHeap (VRef 0) (respondWith emptyHalcyonOk) noOptions
             = Inr (Resolved emptyHalcyonOk)"
    by (simp add: LoadRaw_def reads lookup_def selfLinkHeap_def respondWith_def)
  note t = empty_success_body_rejects [OF a b c d, of parseFails selfLinkHeap
      "respondWith emptyHalcyonOk" "VRef 0" noOptions]
  from a b c d e t show ?thesis by blast
qed

text \<open>
  C3, as amended.  A successful response whose content-type header is present, not empty,
  and does not start with the hypermedia media type makes \<^verbatim>\<open>parseResult\<close> fail with the
  unsupported response type error; this includes \<^verbatim>\<open>application/json\<close> and bodies that
  are valid JSON, since the body is never looked at.  A successful response whose header
  is missing or empty is not rejected: \<^verbatim>\<open>parseResult\<close> returns a newly allocated empty
  envelope and leaves the body unread.
\<close>

theorem success_unsupported_content_type:
  assumes "ok r"
  shows "(contentHeader r = Some ch \<and> ch \<noteq> [] \<and> \<not> startsWith ch halcyonJsonMimeType \<longrightarrow>
            parseResult parse h r d = Inl (UnsupportedResponseType ch))
       \<and> (contentHeader r = None \<or> contentHeader r = Some [] \<longrightarrow>
            parseResult parse h r d =
              Inr (VRef (length h),
                   h @ [Plain [(''_links'', Undefined), (''_embedded'', Undefined)]]))"
  using assms by (auto simp: parseResult_def emptyEnvelope_def alloc_def)

theorem success_unsupported_content_type_witness:
  "ok okPlainJson \<and> contentHeader okPlainJson = Some ''application/json''
   \<and> ''application/json'' \<noteq> []
   \<and> \<not> startsWith ''application/json'' halcyonJsonMimeType
   \<and> parseResult parseFails [] okPlainJson ''{}''
       = Inl (UnsupportedResponseType ''application/json'')
   \<and> ok okNoContentType \<and> contentHeader okNoContentType = None
   \<and> parseResult parseFails selfLinkHeap okNoContentType ''{}''
       = Inr (VRef 1, selfLinkHeap @ [Plain [(''_links'', Undefined), (''_embedded'', Undefined)]])
   \<and> ok okEmptyContentType \<and> contentHeader okEmptyContentType = Some []
   \<and> parseResult parseFails selfLinkHeap okEmptyContentType ''{}''
       = Inr (VRef 1, selfLinkHeap @ [Plain [(''_links'', Undefined), (''_embedded'', Undefined)]])"
proof -
  have a: "ok okPlainJson" by (simp add: okPlainJson_def)
  have b: "contentHeader okPlainJson = Some ''application/json''"
    by (simp add: okPlainJson_def)
  have c: "''application/json'' \<noteq> []" by simp
  have d: "\<not> startsWith ''application/json'' halcyonJsonMimeType"
    by (simp add: startsWith_def halcyonJsonMimeType_def)
  have e: "ok okNoContentType" "contentHeader okNoContentType = None"
    by (simp_all add: okNoContentType_def)
  have f: "ok okEmptyContentType" "contentHeader okEmptyContentType = Some []"
    by (simp_all add: okEmptyContentType_def)
  have n: "length selfLinkHeap = 1" by (simp add: selfLinkHeap_def)
  have t1: "parseResult parseFails [] okPlainJson ''{}''
       = Inl (UnsupportedResponseType ''application/json'')"
    using success_unsupported_content_type [OF a, of "''application/json''" parseFails "[]" "''{}''"]
      b c d by simp
  have t2: "parseResult parseFails selfLinkHeap okNoContentType ''{}''
       = Inr (VRef 1, selfLinkHeap @ [Plain [(''_links'', Undefined), (''_embedded'', Undefined)]])"
    using success_unsupported_content_type [OF e(1), of "[]" parseFails selfLinkHeap "''{}''"]
      e(2) n by simp
  have t3: "parseResult parseFails selfLinkHeap okEmptyContentType ''{}''
       = Inr (VRef 1, selfLinkHeap @ [Plain [(''_links'', Undefined), (''_embedded'', Undefined)]])"
    using success_unsupported_content_type [OF f(1), of "[]" parseFails selfLinkHeap "''{}''"]
      f(2) n by simp
  from a b c d e f t1 t2 t3 show ?thesis by blast
qed

text \<open>
  C3 as stated fails when the header is missing: a successful response without a
  content-type header does not match the hypermedia media type, and \<^verbatim>\<open>parseResult\<close>
  returns a fresh empty envelope instead of failing.
\<close>

theorem success_without_content_type_counterexample:
  "ok okNoContentType \<and> contentHeader okNoContentType = None
   \<and> parseResult parseFails [] okNoContentType ''{}''
       = Inr (VRef 0, [Plain [(''_links'', Undefined), (''_embedded'', Undefined)]])"
  by (simp add: okNoContentType_def parseResult_def emptyEnvelope_def alloc_def)

text \<open>
  C1, as amended.  For a failed response whose content type matches neither media type:
  the first \<^verbatim>\<open>parseResult\<close> of the file leads to the generic server error (status code and
  status text) only when the header is missing or empty, and to the unsupported response
  type error when a header is present; the second \<^verbatim>\<open>parseResult\<close> of the file leads to
  the generic server error whenever a header is present, and to its missing content type
  error otherwise.
\<close>

theorem failure_unmatched_content_type:
  assumes "\<not> ok r"
    and "\<forall>ch. contentHeader r = Some ch \<longrightarrow>
           \<not> startsWith ch halcyonJsonMimeType \<and> \<not> startsWith ch jsonMimeType"
  shows "processResult parse h r f =
           (case contentHeader r of
              None \<Rightarrow> Rejected (GenericServerError (status r) (statusText r))
            | Some ch \<Rightarrow>
                if ch = [] then Rejected (GenericServerError (status r) (statusText r))
                else Rejected (UnsupportedResponseType ch))
       \<and> processResult2 parse h r f =
           (case contentHeader r of
              None \<Rightarrow> Rejected MissingContentType
            | Some ch \<Rightarrow>
                if ch = [] then Rejected MissingContentType
                else Rejected (GenericServerError (status r) (statusText r)))"
  using assms
  by (auto simp: processResult_def processResult2_def parseResult_def parseResult2_def
        emptyEnvelope_def alloc_def reads lookup_def split: option.splits)

theorem failure_unmatched_content_type_witness:
  "\<not> ok failedTextPlain
   \<and> contentHeader failedTextPlain = Some ''text/plain''
   \<and> \<not> startsWith ''text/plain'' halcyonJsonMimeType
   \<and> \<not> startsWith ''text/plain'' jsonMimeType
   \<and> processResult parseFails [] failedTextPlain offline
       = Rejected (UnsupportedResponseType ''text/plain'')
   \<and> processResult2 parseFails [] failedTextPlain offline
       = Rejected (GenericServerError 500 ''Internal Server Error'')"
proof -
  have a: "\<not> ok failedTextPlain" by (simp add: failedTextPlain_def)
  have c: "contentHeader failedTextPlain = Some ''text/plain''"
    "status failedTextPlain = 500" "statusText failedTextPlain = ''Internal Server Error''"
    by (simp_all add: failedTextPlain_def)
  have d: "\<not> startsWith ''text/plain'' halcyonJsonMimeType"
    "\<not> startsWith ''text/plain'' jsonMimeType"
    by (simp_all add: startsWith_def halcyonJsonMimeType_def jsonMimeType_def)
  have b: "\<forall>ch. contentHeader failedTextPlain = Some ch \<longrightarrow>
           \<not> startsWith ch halcyonJsonMimeType \<and> \<not> startsWith ch jsonMimeType"
    using d by (simp add: c)
  note t = failure_unmatched_content_type [OF a b, of parseFails "[]" offline]
  show ?thesis using a d t unfolding c by simp
qed

text \<open>
  C1 as stated fails on the first \<^verbatim>\<open>parseResult\<close>: a failed response of type
  \<^verbatim>\<open>text/plain\<close> is rejected with the unsupported response type error.
\<close>

theorem failure_text_plain_counterexample:
  "\<not> ok failedTextPlain
   \<and> \<not> startsWith ''text/plain'' halcyonJsonMimeType
   \<and> \<not> startsWith ''text/plain'' jsonMimeType
   \<and> contentHeader failedTextPlain = Some ''text/plain''
   \<and> processResult parseFails [] failedTextPlain offline
       = Rejected (UnsupportedResponseType ''text/plain'')"
  by (simp add: failedTextPlain_def processResult_def parseResult_def startsWith_def
      halcyonJsonMimeType_def jsonMimeType_def)

text \<open>
  C4.  A failed response with the JSON content type and an empty body is parsed to the
  null document; \<^verbatim>\<open>processResult\<close> then reads \<^verbatim>\<open>message\<close> of \<^verbatim>\<open>null\<close>, and the promise
  is rejected with a \<^verbatim>\<open>TypeError\<close> instead of the generic server error.
\<close>

theorem failed_empty_body_type_error:
  "parseResult parse h failedEmptyJson (bodyText failedEmptyJson) = Inr (Null, h)
   \<and> processResult parse h failedEmptyJson f = Rejected TypeError
   \<and> processResult parse h failedEmptyJson f
       \<noteq> Rejected (GenericServerError (status failedEmptyJson) (statusText failedEmptyJson))"
  by (simp add: failedEmptyJson_def processResult_def parseResult_def startsWith_def
      halcyonJsonMimeType_def jsonMimeType_def reads)

text \<open>
  For every other parsed document the classification is the one C4 describes: a defined
  \<^verbatim>\<open>message\<close> gives the structured error with the document and the status code, and
  anything else gives the generic server error.
\<close>

lemma failed_response_classified:
  assumes "\<not> ok r" and "parseResult parse h r (bodyText r) = Inr (doc, h1)"
    and "doc \<noteq> Null" and "doc \<noteq> Undefined"
  shows "\<exists>m. getProp h1 doc ''message'' = Inr m
       \<and> processResult parse h r f =
           (if m \<noteq> Undefined then Rejected (HalError doc (status r))
            else Rejected (GenericServerError (status r) (statusText r)))"
  using assms
  by (cases doc) (auto simp: processResult_def reads split: option.splits obj.splits)

section \<open>Properties of the store operations\<close>

lemma HalEndpointClient_result:
  assumes "d \<noteq> Undefined" and "d \<noteq> Null"
  shows "\<exists>em ln. getProp h d ''_embedded'' = Inr em
          \<and> getProp h d ''_links'' = Inr ln
          \<and> HalEndpointClient h d f =
              Inr (length h,
                   deleteProp (deleteProp h d ''_embedded'') d ''_links''
                   @ [ClientObj \<lparr>data = d, fetcher = f, embeds = em, links = ln\<rparr>])"
proof -
  obtain em where em: "getProp h d ''_embedded'' = Inr em"
    using getProp_total [OF assms] by blast
  obtain ln where ln: "getProp h d ''_links'' = Inr ln"
    using getProp_total [OF assms] by blast
  have ln': "getProp (deleteProp h d ''_embedded'') d ''_links'' = Inr ln"
    using ln by (simp add: getProp_deleteProp_other)
  show ?thesis
    using em ln ln' by (simp add: HalEndpointClient_def alloc_def)
qed

text \<open>
  C6.  Building a client from any parsed document other than \<^verbatim>\<open>null\<close> succeeds, the new
  client's \<^verbatim>\<open>GetData()\<close> is the very value that was passed in (the same reference, so
  the same object on every call), and afterwards that object has neither \<^verbatim>\<open>_links\<close> nor
  \<^verbatim>\<open>_embedded\<close>; its other members, in their order, and every other object of the store
  are unchanged.
\<close>

theorem GetData_envelope_removed:
  assumes "d \<noteq> Undefined" and "d \<noteq> Null"
  shows "\<exists>cl h'. HalEndpointClient h d f = Inr (length h, h')
          \<and> lookup h' (length h) = Some (ClientObj cl)
          \<and> GetData cl = d
          \<and> getProp h' d ''_links'' = Inr Undefined
          \<and> getProp h' d ''_embedded'' = Inr Undefined
          \<and> (\<forall>k. k \<noteq> ''_links'' \<and> k \<noteq> ''_embedded'' \<longrightarrow> getProp h' d k = getProp h d k)
          \<and> (\<forall>a kvs. d = VRef a \<and> lookup h a = Some (Plain kvs) \<longrightarrow>
                lookup h' a =
                  Some (Plain (filter (\<lambda>kv. fst kv \<noteq> ''_links'')
                                 (filter (\<lambda>kv. fst kv \<noteq> ''_embedded'') kvs))))
          \<and> (\<forall>b. b < length h \<and> d \<noteq> VRef b \<longrightarrow> lookup h' b = lookup h b)"
proof -
  let ?h1 = "deleteProp h d ''_embedded''"
  let ?h2 = "deleteProp ?h1 d ''_links''"
  obtain em ln where
    r: "HalEndpointClient h d f =
          Inr (length h, ?h2 @ [ClientObj \<lparr>data = d, fetcher = f, embeds = em, links = ln\<rparr>])"
    using HalEndpointClient_result [OF assms] by blast
  let ?cl = "\<lparr>data = d, fetcher = f, embeds = em, links = ln\<rparr>"
  let ?h' = "?h2 @ [ClientObj ?cl]"
  have c1: "lookup ?h' (length h) = Some (ClientObj ?cl)"
    using lookup_append_new [of ?h2] by simp
  have c2: "GetData ?cl = d" by (simp add: GetData_def)
  have c3: "getProp ?h' d ''_links'' = Inr Undefined"
    using getProp_deleted [OF assms, of "''_links''" ?h1]
    by (simp add: getProp_append_client)
  have "getProp ?h1 d ''_embedded'' = Inr Undefined"
    using getProp_deleted [OF assms, of "''_embedded''" h] by simp
  then have c4: "getProp ?h' d ''_embedded'' = Inr Undefined"
    by (simp add: getProp_append_client getProp_deleteProp_other)
  have c5: "\<forall>k. k \<noteq> ''_links'' \<and> k \<noteq> ''_embedded'' \<longrightarrow> getProp ?h' d k = getProp h d k"
    by (simp add: getProp_append_client getProp_deleteProp_other)
  have c6: "\<forall>a kvs. d = VRef a \<and> lookup h a = Some (Plain kvs) \<longrightarrow>
              lookup ?h' a =
                Some (Plain (filter (\<lambda>kv. fst kv \<noteq> ''_links'')
                               (filter (\<lambda>kv. fst kv \<noteq> ''_embedded'') kvs)))"
  proof (intro allI impI)
    fix a kvs
    assume "d = VRef a \<and> lookup h a = Some (Plain kvs)"
    then have d: "d = VRef a" and l: "lookup h a = Some (Plain kvs)" by simp_all
    have a: "a < length h" using l by (simp add: lookup_def split: if_splits)
    have "lookup ?h2 a =
            Some (Plain (filter (\<lambda>kv. fst kv \<noteq> ''_links'')
                           (filter (\<lambda>kv. fst kv \<noteq> ''_embedded'') kvs)))"
      unfolding d by (intro lookup_deleteProp_Plain l)
    then show "lookup ?h' a =
            Some (Plain (filter (\<lambda>kv. fst kv \<noteq> ''_links'')
                           (filter (\<lambda>kv. fst kv \<noteq> ''_embedded'') kvs)))"
      using a by (simp add: lookup_append_old)
  qed
  have c7: "\<forall>b. b < length h \<and> d \<noteq> VRef b \<longrightarrow> lookup ?h' b = lookup h b"
    by (simp add: lookup_append_old lookup_deleteProp_other)
  show ?thesis
    using r c1 c2 c3 c4 c5 c6 c7 by blast
qed


theorem GetData_envelope_removed_witness:
  "VRef 0 \<noteq> Undefined \<and> VRef 0 \<noteq> Null
   \<and> (\<exists>cl h'. HalEndpointClient sampleHeap (VRef 0) offline = Inr (6, h')
         \<and> lookup h' 6 = Some (ClientObj cl)
         \<and> GetData cl = VRef 0
         \<and> getProp h' (VRef 0) ''_links'' = Inr Undefined
         \<and> getProp h' (VRef 0) ''_embedded'' = Inr Undefined
         \<and> getProp h' (VRef 0) ''name'' = Inr (VStr ''x'')
         \<and> lookup h' 0 = Some (Plain [(''name'', VStr ''x'')]))"
proof -
  have a: "VRef 0 \<noteq> Undefined" and b: "VRef 0 \<noteq> Null" by simp_all
  have l: "lookup sampleHeap 0 =
             Some (Plain [(''_links'', VRef 1), (''name'', VStr ''x''), (''_embedded'', VRef 2)])"
    by (simp add: sampleHeap_def lookup_def)
  have n: "length sampleHeap = 6" by (simp add: sampleHeap_def)
  have g: "getProp sampleHeap (VRef 0) ''name'' = Inr (VStr ''x'')"
    by (simp add: reads l)
  obtain cl h' where
    t: "HalEndpointClient sampleHeap (VRef 0) offline = Inr (length sampleHeap, h')"
       "lookup h' (length sampleHeap) = Some (ClientObj cl)"
       "GetData cl = VRef 0"
       "getProp h' (VRef 0) ''_links'' = Inr Undefined"
       "getProp h' (VRef 0) ''_embedded'' = Inr Undefined"
       "\<forall>k. k \<noteq> ''_links'' \<and> k \<noteq> ''_embedded'' \<longrightarrow>
            getProp h' (VRef 0) k = getProp sampleHeap (VRef 0) k"
       "\<forall>a kvs. VRef 0 = VRef a \<and> lookup sampleHeap a = Some (Plain kvs) \<longrightarrow>
            lookup h' a =
              Some (Plain (filter (\<lambda>kv. fst kv \<noteq> ''_links'')
                             (filter (\<lambda>kv. fst kv \<noteq> ''_embedded'') kvs)))"
    using GetData_envelope_removed [OF a b, of sampleHeap offline] by blast
  have "getProp h' (VRef 0) ''name'' = Inr (VStr ''x'')"
    using t(6) g by simp
  moreover have "lookup h' 0 = Some (Plain [(''name'', VStr ''x'')])"
    using t(7) l by simp
  ultimately show ?thesis using t(1-5) n by auto
qed

section \<open>Properties of links and embeds\<close>

text \<open>
  C9.  With an absent (\<^verbatim>\<open>undefined\<close>) or \<^verbatim>\<open>null\<close> query, \<^verbatim>\<open>GetQueryLink\<close> returns the link
  it was given, the same reference, and allocates nothing.  Only a present query rewrites:
  then the result is a new object at a fresh address whose \<^verbatim>\<open>href\<close> is built from the
  link's \<^verbatim>\<open>href\<close> and the query and whose \<^verbatim>\<open>method\<close> is the link's, and it is never the
  original link with the store unchanged.
\<close>

theorem GetQueryLink_absent_query:
  "(query = JUndefined \<or> query = JNull \<longrightarrow> GetQueryLink uri h link query = Inr (link, h))
   \<and> (query \<noteq> JUndefined \<and> query \<noteq> JNull \<and> link \<noteq> Undefined \<and> link \<noteq> Null \<longrightarrow>
        (\<exists>hr m. getProp h link ''href'' = Inr hr \<and> getProp h link ''method'' = Inr m
           \<and> GetQueryLink uri h link query =
               Inr (VRef (length h),
                    h @ [Plain [(''href'', VStr (uri hr query)), (''method'', m)]])))
   \<and> (query \<noteq> JUndefined \<and> query \<noteq> JNull \<longrightarrow> GetQueryLink uri h link query \<noteq> Inr (link, h))"
proof (intro conjI impI)
  assume "query = JUndefined \<or> query = JNull"
  then show "GetQueryLink uri h link query = Inr (link, h)"
    by (auto simp: GetQueryLink_def)
next
  assume a: "query \<noteq> JUndefined \<and> query \<noteq> JNull \<and> link \<noteq> Undefined \<and> link \<noteq> Null"
  then obtain hr m where "getProp h link ''href'' = Inr hr" "getProp h link ''method'' = Inr m"
    using getProp_total [of link h] by blast
  then show "\<exists>hr m. getProp h link ''href'' = Inr hr \<and> getProp h link ''method'' = Inr m
           \<and> GetQueryLink uri h link query =
               Inr (VRef (length h),
                    h @ [Plain [(''href'', VStr (uri hr query)), (''method'', m)]])"
    using a by (simp add: GetQueryLink_def alloc_def)
next
  assume a: "query \<noteq> JUndefined \<and> query \<noteq> JNull"
  show "GetQueryLink uri h link query \<noteq> Inr (link, h)"
    using a by (auto simp: GetQueryLink_def alloc_def split: sum.splits)
qed

theorem GetQueryLink_absent_query_witness:
  "GetQueryLink sampleUri sampleHeap (VRef 3) JUndefined = Inr (VRef 3, sampleHeap)
   \<and> GetQueryLink sampleUri sampleHeap (VRef 3) JNull = Inr (VRef 3, sampleHeap)
   \<and> GetQueryLink sampleUri sampleHeap (VRef 3) (JObj [(''y'', JNum 2)])
       = Inr (VRef 6, sampleHeap @ [Plain [(''href'', VStr ''/a?y=2''), (''method'', VStr ''GET'')]])
   \<and> GetQueryLink sampleUri sampleHeap (VRef 3) (JObj [(''y'', JNum 2)])
       \<noteq> Inr (VRef 3, sampleHeap)"
proof -
  have n: "length sampleHeap = 6" by (simp add: sampleHeap_def)
  have g: "getProp sampleHeap (VRef 3) ''href'' = Inr (VStr ''/a'')"
    "getProp sampleHeap (VRef 3) ''method'' = Inr (VStr ''GET'')"
    by (simp_all add: reads lookup_def sampleHeap_def)
  have u: "GetQueryLink sampleUri sampleHeap (VRef 3) JUndefined = Inr (VRef 3, sampleHeap)"
    using GetQueryLink_absent_query [of JUndefined sampleUri sampleHeap "VRef 3"] by simp
  have v: "GetQueryLink sampleUri sampleHeap (VRef 3) JNull = Inr (VRef 3, sampleHeap)"
    using GetQueryLink_absent_query [of JNull sampleUri sampleHeap "VRef 3"] by simp
  have w: "GetQueryLink sampleUri sampleHeap (VRef 3) (JObj [(''y'', JNum 2)])
       = Inr (VRef 6, sampleHeap @ [Plain [(''href'', VStr ''/a?y=2''), (''method'', VStr ''GET'')]])"
    using GetQueryLink_absent_query [of "JObj [(''y'', JNum 2)]" sampleUri sampleHeap "VRef 3"]
    by (simp add: g n sampleUri_def)
  have x: "GetQueryLink sampleUri sampleHeap (VRef 3) (JObj [(''y'', JNum 2)])
       \<noteq> Inr (VRef 3, sampleHeap)"
    using GetQueryLink_absent_query [of "JObj [(''y'', JNum 2)]" sampleUri sampleHeap "VRef 3"]
    by simp
  from u v w x show ?thesis by blast
qed

lemma objectMembers_functions:
  assumes "map_of (members ObjectProto) k = Some v"
  shows "\<exists>f n. v = VFun f n"
proof -
  have "(k, v) \<in> set (members ObjectProto)" using assms by (rule map_of_SomeD)
  then show ?thesis by (auto simp: members_def)
qed

lemma inherited_Object:
  "\<not> inheritsFromObject k \<Longrightarrow> inherited ObjectProto k = Undefined"
  "inheritsFromObject k \<Longrightarrow>
     inherited ObjectProto k = VProto ObjectProto \<or> (\<exists>f n. inherited ObjectProto k = VFun f n)"
proof -
  assume "\<not> inheritsFromObject k"
  then have "k \<noteq> ''__proto__''" and "k \<notin> fst ` set (members ObjectProto)"
    by (simp_all add: inheritsFromObject_def)
  then have "k \<noteq> ''__proto__''" and "map_of (members ObjectProto) k = None"
    by (simp_all only: map_of_eq_None_iff not_False_eq_True)
  then show "inherited ObjectProto k = Undefined"
    by (simp add: inherited_def)
next
  assume i: "inheritsFromObject k"
  show "inherited ObjectProto k = VProto ObjectProto \<or> (\<exists>f n. inherited ObjectProto k = VFun f n)"
  proof (cases "k = ''__proto__''")
    case True
    then show ?thesis by (simp add: inherited_def)
  next
    case False
    with i have "k \<in> fst ` set (members ObjectProto)" by (simp add: inheritsFromObject_def)
    then obtain v where v: "map_of (members ObjectProto) k = Some v"
      by (meson domD domI map_of_eq_None_iff not_None_eq)
    with False objectMembers_functions [OF v] show ?thesis by (auto simp: inherited_def)
  qed
qed

lemma members_not_index: "k \<in> fst ` set (members p) \<Longrightarrow> \<not> list_all isDigit k"
  by (cases p; auto simp: members_def isDigit_def)

lemma member_function_index: "member h (VFun f n) (showNat i) = Undefined"
proof -
  have a: "showNat i \<noteq> ''length''" "showNat i \<noteq> ''name''" "showNat i \<noteq> ''__proto__''"
    by (rule showNat_neq, simp add: isDigit_def)+
  have "\<And>p. showNat i \<notin> fst ` set (members p)"
    using members_not_index showNat_neq by blast
  then have b: "\<And>p. map_of (members p) (showNat i) = None"
    by (simp add: map_of_eq_None_iff)
  show ?thesis
    by (simp add: member_def own_def prototypeOf_def inherited_def a b)
qed

text \<open>
  What \<^verbatim>\<open>GetAllClients\<close> does on a wrapper that holds \<^verbatim>\<open>undefined\<close>, a prototype object or
  a built-in function: the first throws at \<^verbatim>\<open>.length\<close>, the second has no length and a
  function without parameters has length 0, so the loop does not run; a function with
  parameters makes the loop read an index, which is \<^verbatim>\<open>undefined\<close>, and the constructor
  throws.
\<close>

lemma GetAllClients_not_documents:
  "rawDocuments e = Undefined \<Longrightarrow> GetAllClients h e = Inl TypeError"
  "rawDocuments e = VProto ObjectProto \<Longrightarrow> GetAllClients h e = Inr (length h, h @ [Array []])"
  "rawDocuments e = VFun f 0 \<Longrightarrow> GetAllClients h e = Inr (length h, h @ [Array []])"
  "rawDocuments e = VFun f (Suc n) \<Longrightarrow> GetAllClients h e = Inl TypeError"
proof -
  show "rawDocuments e = Undefined \<Longrightarrow> GetAllClients h e = Inl TypeError"
    by (simp add: GetAllClients_def alloc_def elements_def getProp_def)
  show "rawDocuments e = VProto ObjectProto \<Longrightarrow>
          GetAllClients h e = Inr (length h, h @ [Array []])"
    by (simp add: GetAllClients_def alloc_def elements_def getProp_def member_def own_def
        members_def toNumber_def)
  show "rawDocuments e = VFun f 0 \<Longrightarrow> GetAllClients h e = Inr (length h, h @ [Array []])"
    by (simp add: GetAllClients_def alloc_def elements_def getProp_def member_def own_def
        toNumber_def)
  assume r: "rawDocuments e = VFun f (Suc n)"
  have u: "[0 ..< Suc n] = 0 # [Suc 0 ..< Suc n]" by (rule upt_conv_Cons) simp
  have "elements (h @ [Array []]) (VFun f (Suc n))
      = Inr (map (\<lambda>i. Undefined) [0 ..< nat (int (Suc n))])"
    by (simp add: elements_def getProp_def toNumber_def member_function_index
        member_def [of _ _ "''length''"] own_def del: upt_Suc of_nat_Suc)
  then have "elements (h @ [Array []]) (VFun f (Suc n))
      = Inr (Undefined # map (\<lambda>i. Undefined) [Suc 0 ..< Suc n])"
    by (simp only: nat_int u list.map)
  then show "GetAllClients h e = Inl TypeError"
    by (simp add: GetAllClients_def alloc_def r HalEndpointClient_null)
qed

text \<open>
  C8, as amended.  On a client that has an embedded map, \<^verbatim>\<open>GetEmbed(name)\<close> returns a
  wrapper for every name, also for one that is not in the map; on a client whose embedded
  map is missing or \<^verbatim>\<open>null\<close> it throws a \<^verbatim>\<open>TypeError\<close>.  On the wrapper of a name that is
  not a member of the map, \<^verbatim>\<open>GetAllClients()\<close> either throws a \<^verbatim>\<open>TypeError\<close> or returns a
  newly allocated empty sequence; it throws whenever the name is not one that every
  object inherits.
\<close>

theorem GetEmbed_needs_embedded_map:
  "(embeds c \<noteq> Undefined \<and> embeds c \<noteq> Null \<longrightarrow>
      (\<exists>v. getProp h (embeds c) nm = Inr v
         \<and> GetEmbed h c nm = Inr \<lparr>name = nm, rawDocuments = v, embedFetcher = fetcher c\<rparr>))
   \<and> (embeds c = Undefined \<or> embeds c = Null \<longrightarrow> GetEmbed h c nm = Inl TypeError)
   \<and> (embeds c = VRef a \<and> lookup h a = Some (Plain kvs) \<and> map_of kvs nm = None \<longrightarrow>
        (\<exists>e. GetEmbed h c nm = Inr e
           \<and> (GetAllClients h' e = Inl TypeError
                \<or> GetAllClients h' e = Inr (length h', h' @ [Array []]))
           \<and> (\<not> inheritsFromObject nm \<longrightarrow> GetAllClients h' e = Inl TypeError)))"
proof (intro conjI impI)
  assume "embeds c \<noteq> Undefined \<and> embeds c \<noteq> Null"
  then have "getProp h (embeds c) nm = Inr (member h (embeds c) nm)"
    by (simp add: getProp_total)
  then show "\<exists>v. getProp h (embeds c) nm = Inr v
         \<and> GetEmbed h c nm = Inr \<lparr>name = nm, rawDocuments = v, embedFetcher = fetcher c\<rparr>"
    by (simp add: GetEmbed_def)
next
  assume "embeds c = Undefined \<or> embeds c = Null"
  then show "GetEmbed h c nm = Inl TypeError"
    by (auto simp: GetEmbed_def getProp_def)
next
  assume m: "embeds c = VRef a \<and> lookup h a = Some (Plain kvs) \<and> map_of kvs nm = None"
  let ?v = "inherited ObjectProto nm"
  let ?e = "\<lparr>name = nm, rawDocuments = ?v, embedFetcher = fetcher c\<rparr>"
  have g: "GetEmbed h c nm = Inr ?e"
    using m by (simp add: GetEmbed_def getProp_def member_Plain)
  have r: "rawDocuments ?e = ?v" by simp
  have u: "\<not> inheritsFromObject nm \<longrightarrow> GetAllClients h' ?e = Inl TypeError"
    using GetAllClients_not_documents(1) [of ?e h'] inherited_Object(1) [of nm] by simp
  have d: "GetAllClients h' ?e = Inl TypeError
            \<or> GetAllClients h' ?e = Inr (length h', h' @ [Array []])"
  proof (cases "inheritsFromObject nm")
    case False
    with u show ?thesis by simp
  next
    case True
    then consider "?v = VProto ObjectProto" | f n where "?v = VFun f n"
      using inherited_Object(2) by blast
    then show ?thesis
    proof cases
      case 1
      then show ?thesis using GetAllClients_not_documents(2) [of ?e h'] by simp
    next
      case (2 f n)
      then show ?thesis
        using GetAllClients_not_documents(3) [of ?e f h']
          GetAllClients_not_documents(4) [of ?e f _ h']
        by (cases n) simp_all
    qed
  qed
  from g d u show "\<exists>e. GetEmbed h c nm = Inr e
           \<and> (GetAllClients h' e = Inl TypeError
                \<or> GetAllClients h' e = Inr (length h', h' @ [Array []]))
           \<and> (\<not> inheritsFromObject nm \<longrightarrow> GetAllClients h' e = Inl TypeError)"
    by blast
qed

theorem GetEmbed_needs_embedded_map_witness:
  "embeds linkedClient = VRef 2 \<and> lookup sampleHeap 2 = Some (Plain [(''items'', VRef 4)])
   \<and> map_of [(''items'', VRef 4)] ''other'' = None \<and> \<not> inheritsFromObject ''other''
   \<and> map_of [(''items'', VRef 4)] ''toString'' = None
   \<and> GetEmbed sampleHeap linkedClient ''items''
       = Inr \<lparr>name = ''items'', rawDocuments = VRef 4, embedFetcher = offline\<rparr>
   \<and> GetEmbed sampleHeap linkedClient ''other''
       = Inr \<lparr>name = ''other'', rawDocuments = Undefined, embedFetcher = offline\<rparr>
   \<and> GetAllClients sampleHeap
        \<lparr>name = ''other'', rawDocuments = Undefined, embedFetcher = offline\<rparr> = Inl TypeError
   \<and> GetEmbed sampleHeap linkedClient ''toString''
       = Inr \<lparr>name = ''toString'', rawDocuments = VFun ''toString'' 0, embedFetcher = offline\<rparr>
   \<and> GetAllClients sampleHeap
        \<lparr>name = ''toString'', rawDocuments = VFun ''toString'' 0, embedFetcher = offline\<rparr>
       = Inr (6, sampleHeap @ [Array []])
   \<and> embeds noEmbedClient = Undefined
   \<and> GetEmbed sampleHeap noEmbedClient ''items'' = Inl TypeError
   \<and> embeds nullLinksClient = Null
   \<and> GetEmbed sampleHeap nullLinksClient ''items'' = Inl TypeError"
proof -
  have a: "embeds linkedClient = VRef 2" "fetcher linkedClient = offline"
    by (simp_all add: linkedClient_def)
  have l: "lookup sampleHeap 2 = Some (Plain [(''items'', VRef 4)])" "length sampleHeap = 6"
    by (simp_all add: sampleHeap_def lookup_def)
  have n: "map_of [(''items'', VRef 4)] ''other'' = None"
    "map_of [(''items'', VRef 4)] ''toString'' = None" by simp_all
  have o: "\<not> inheritsFromObject ''other''"
    by (simp add: inheritsFromObject_def members_def)
  have gi: "getProp sampleHeap (VRef 2) ''items'' = Inr (VRef 4)"
    by (simp add: getProp_def member_Plain [OF l(1)])
  have go: "getProp sampleHeap (VRef 2) ''other'' = Inr Undefined"
    by (simp add: getProp_def member_Plain [OF l(1)] inherited_def members_def)
  have gt: "getProp sampleHeap (VRef 2) ''toString'' = Inr (VFun ''toString'' 0)"
    by (simp add: getProp_def member_Plain [OF l(1)] inherited_def members_def)
  note t = GetEmbed_needs_embedded_map [of linkedClient sampleHeap _ 2 "[(''items'', VRef 4)]" sampleHeap]
  have i: "GetEmbed sampleHeap linkedClient ''items''
       = Inr \<lparr>name = ''items'', rawDocuments = VRef 4, embedFetcher = offline\<rparr>"
    using t [of "''items''"] a gi by simp
  have ot: "GetEmbed sampleHeap linkedClient ''other''
       = Inr \<lparr>name = ''other'', rawDocuments = Undefined, embedFetcher = offline\<rparr>"
    using t [of "''other''"] a go by simp
  have oc: "GetAllClients sampleHeap
        \<lparr>name = ''other'', rawDocuments = Undefined, embedFetcher = offline\<rparr> = Inl TypeError"
    using t [of "''other''"] a l n o ot by auto
  have ts: "GetEmbed sampleHeap linkedClient ''toString''
       = Inr \<lparr>name = ''toString'', rawDocuments = VFun ''toString'' 0, embedFetcher = offline\<rparr>"
    using t [of "''toString''"] a gt by simp
  have "GetAllClients sampleHeap
        \<lparr>name = ''toString'', rawDocuments = VFun ''toString'' 0, embedFetcher = offline\<rparr>
       \<noteq> Inl TypeError"
    by (simp add: GetAllClients_def alloc_def elements_def getProp_def member_def own_def
        toNumber_def)
  then have tc: "GetAllClients sampleHeap
        \<lparr>name = ''toString'', rawDocuments = VFun ''toString'' 0, embedFetcher = offline\<rparr>
       = Inr (6, sampleHeap @ [Array []])"
    using t [of "''toString''"] a l n ts by auto
  have e: "embeds noEmbedClient = Undefined" by (simp add: noEmbedClient_def)
  have ne: "GetEmbed sampleHeap noEmbedClient ''items'' = Inl TypeError"
    using GetEmbed_needs_embedded_map [of noEmbedClient sampleHeap "''items''"] e by simp
  have u: "embeds nullLinksClient = Null" by (simp add: nullLinksClient_def)
  have nu: "GetEmbed sampleHeap nullLinksClient ''items'' = Inl TypeError"
    using GetEmbed_needs_embedded_map [of nullLinksClient sampleHeap "''items''"] u by simp
  from a(1) l(1) n o i ot oc ts tc e ne u nu show ?thesis by blast
qed

text \<open>
  C8 as stated fails on a client without an embedded map: the client built from the raw
  document at address 5, which has no \<^verbatim>\<open>_embedded\<close> member, throws a \<^verbatim>\<open>TypeError\<close> from
  \<^verbatim>\<open>GetEmbed\<close>, while \<^verbatim>\<open>HasEmbed\<close> on it returns false.
\<close>

theorem GetEmbed_without_map_counterexample:
  "HalEndpointClient sampleHeap (VRef 5) offline
     = Inr (6, sampleHeap[5 := Plain [(''id'', VNum 7)]] @ [ClientObj noEmbedClient])
   \<and> GetEmbed (sampleHeap[5 := Plain [(''id'', VNum 7)]] @ [ClientObj noEmbedClient])
        noEmbedClient ''items'' = Inl TypeError
   \<and> HasEmbed (sampleHeap[5 := Plain [(''id'', VNum 7)]] @ [ClientObj noEmbedClient])
        noEmbedClient ''items'' = Inr False"
  by (simp add: HalEndpointClient_def reads deleteProp_def lookup_def sampleHeap_def alloc_def noEmbedClient_def GetEmbed_def HasEmbed_def)




section \<open>Properties of the multipart encoder\<close>

lemma constructKey_specKey: "p \<noteq> Some [] \<Longrightarrow> constructKey p k = specKey p k"
  by (cases p) (simp_all add: constructKey_def specKey_def)

text \<open>
  The loop appends exactly the specified fields to the form it is given, as long as the
  parent key is not the empty string and, at the top level, no empty key holds a value
  that is recursed into (which would make the parent key of the recursion empty).
\<close>

lemma forIn_specFields:
  "p \<noteq> Some [] \<Longrightarrow>
   (p = None \<longrightarrow> (\<forall>(k, v) \<in> set kvs. k = [] \<longrightarrow> \<not> isPlainObject v)) \<Longrightarrow>
   forIn kvs fd p = fd @ specFields p kvs"
proof (induction p kvs arbitrary: fd rule: specFields.induct)
  case (2 p k kvs rest)
  have ck: "constructKey p k = specKey p k"
    using "2.prems"(1) by (rule constructKey_specKey)
  show ?case
  proof (cases "''constructor'' \<in> fst ` set kvs")
    case True
    have rest: "\<And>fd'. forIn rest fd' p = fd' @ specFields p rest"
      using "2.IH"(1) [OF True "2.prems"(1)] "2.prems"(2) by simp
    show ?thesis using True by (simp add: ck rest)
  next
    case False
    have ne: "Some (specKey p k) \<noteq> Some []"
      using "2.prems" False by (cases p) (auto simp: specKey_def)
    have inner: "forIn kvs fd (Some (specKey p k)) = fd @ specFields (Some (specKey p k)) kvs"
      using "2.IH"(2) [OF False ne] by simp
    have rest: "\<And>fd'. forIn rest fd' p = fd' @ specFields p rest"
      using "2.IH"(3) [OF False "2.prems"(1)] "2.prems"(2) by simp
    show ?thesis using False by (simp add: ck inner rest)
  qed
qed (simp_all add: constructKey_specKey)

text \<open>
  For a key/value object in which no top-level empty key holds a value that is recursed
  into, \<^verbatim>\<open>jsonToFormData\<close> called as the navigation operations call it produces the fields
  of the specification: one field \<open>p.k\<close> (or \<open>k\<close> at the top level) per value that is not
  recursed into, with the value as it is, and recursion exactly into the values whose own
  constructor is the bare object constructor.
\<close>

lemma jsonToFormData_flattens:
  assumes "\<forall>(k, v) \<in> set kvs. k = [] \<longrightarrow> \<not> isPlainObject v"
  shows "jsonToFormData (JObj kvs) [] None = specFields None kvs"
  using forIn_specFields [of None kvs "[]"] assms by simp

lemma jsonToFormData_nested_example:
  "jsonToFormData (JObj nestedForm) [] None
     = [(''a.b'', JNum 1), (''a.c'', JStr ''s''), (''d'', JArr [JNum 1, JNum 2])]"
proof -
  have a: "\<forall>(k, v) \<in> set nestedForm. k = [] \<longrightarrow> \<not> isPlainObject v"
    by (simp add: nestedForm_def)
  have "specFields None nestedForm
          = [(''a.b'', JNum 1), (''a.c'', JStr ''s''), (''d'', JArr [JNum 1, JNum 2])]"
    by (simp add: nestedForm_def specKey_def)
  then show ?thesis using jsonToFormData_flattens [OF a] by simp
qed

text \<open>
  A value with a member named \<^verbatim>\<open>constructor\<close> fails the test
  \<^verbatim>\<open>value.constructor === {}.constructor\<close> and is appended as it is.
\<close>

lemma jsonToFormData_constructor_example:
  "jsonToFormData (JObj [(''a'', JObj [(''constructor'', JNum 1), (''b'', JNum 2)])]) [] None
     = [(''a'', JObj [(''constructor'', JNum 1), (''b'', JNum 2)])]"
  by (simp add: constructKey_def)

text \<open>
  C7.  The prefix rule fails for an empty top-level key that holds a plain object: the
  recursion runs with the empty string as parent key, the test \<^verbatim>\<open>if (parentKey)\<close> is
  false, and the field of \<open>b\<close> is named \<open>b\<close> where the rule \<open>p.k\<close>, and the comment in the
  code (\<^verbatim>\<open>parent.child\<close>), give \<open>.b\<close>.
\<close>

theorem jsonToFormData_empty_key:
  "jsonToFormData (JObj [([], JObj [(''b'', JNum 1)])]) [] None = [(''b'', JNum 1)]
   \<and> specFields None [([], JObj [(''b'', JNum 1)])] = [(''.b'', JNum 1)]"
  by (simp add: constructKey_def specKey_def)

section \<open>Properties of embedded collections\<close>

lemma deleteProp_keeps_Array:
  "lookup h b = Some (Array ys) \<Longrightarrow> lookup (deleteProp h v k) b = Some (Array ys)"
  by (cases v)
     (auto simp: deleteProp_def lookup_def nth_list_update split: option.splits obj.splits if_splits)

lemma deleteProp_keeps_ClientObj:
  "lookup h b = Some (ClientObj c) \<Longrightarrow> lookup (deleteProp h v k) b = Some (ClientObj c)"
  by (cases v)
     (auto simp: deleteProp_def lookup_def nth_list_update split: option.splits obj.splits if_splits)

lemma HalEndpointClient_step:
  assumes "d \<noteq> Undefined" and "d \<noteq> Null"
  shows "\<exists>h' cl. HalEndpointClient h d f = Inr (length h, h')
          \<and> length h' = Suc (length h)
          \<and> lookup h' (length h) = Some (ClientObj cl) \<and> data cl = d \<and> fetcher cl = f
          \<and> (\<forall>b ys. lookup h b = Some (Array ys) \<longrightarrow> lookup h' b = Some (Array ys))
          \<and> (\<forall>b c. lookup h b = Some (ClientObj c) \<longrightarrow> lookup h' b = Some (ClientObj c))"
proof -
  let ?h2 = "deleteProp (deleteProp h d ''_embedded'') d ''_links''"
  obtain em ln where
    r: "HalEndpointClient h d f =
          Inr (length h, ?h2 @ [ClientObj \<lparr>data = d, fetcher = f, embeds = em, links = ln\<rparr>])"
    using HalEndpointClient_result [OF assms] by blast
  let ?cl = "\<lparr>data = d, fetcher = f, embeds = em, links = ln\<rparr>"
  let ?h' = "?h2 @ [ClientObj ?cl]"
  have a: "length ?h' = Suc (length h)" by simp
  have b: "lookup ?h' (length h) = Some (ClientObj ?cl)"
    using lookup_append_new [of ?h2] by simp
  have c: "\<forall>b ys. lookup h b = Some (Array ys) \<longrightarrow> lookup ?h' b = Some (Array ys)"
  proof (intro allI impI)
    fix b ys assume l: "lookup h b = Some (Array ys)"
    then have "b < length ?h2" using lookup_Some_less by fastforce
    moreover have "lookup ?h2 b = Some (Array ys)"
      using l by (intro deleteProp_keeps_Array)
    ultimately show "lookup ?h' b = Some (Array ys)" by (simp add: lookup_append_old)
  qed
  have e: "\<forall>b c. lookup h b = Some (ClientObj c) \<longrightarrow> lookup ?h' b = Some (ClientObj c)"
  proof (intro allI impI)
    fix b c assume l: "lookup h b = Some (ClientObj c)"
    then have "b < length ?h2" using lookup_Some_less by fastforce
    moreover have "lookup ?h2 b = Some (ClientObj c)"
      using l by (intro deleteProp_keeps_ClientObj)
    ultimately show "lookup ?h' b = Some (ClientObj c)" by (simp add: lookup_append_old)
  qed
  have "data ?cl = d \<and> fetcher ?cl = f" by simp
  with r a b c e show ?thesis by blast
qed

lemma push_result:
  assumes "lookup h arr = Some (Array acc)"
  shows "length (push h arr v) = length h"
    and "lookup (push h arr v) arr = Some (Array (acc @ [v]))"
    and "b \<noteq> arr \<Longrightarrow> lookup (push h arr v) b = lookup h b"
  using assms by (auto simp: push_def lookup_def split: if_splits)

lemma pushClients_result:
  assumes "\<forall>x\<in>set ds. x \<noteq> Undefined \<and> x \<noteq> Null" and "lookup h arr = Some (Array acc)"
  shows "\<exists>h'. pushClients h arr ds f = Inr h'
          \<and> length h' = length h + length ds
          \<and> lookup h' arr = Some (Array (acc @ map VRef [length h ..< length h + length ds]))
          \<and> (\<forall>i<length ds. \<exists>cl. lookup h' (length h + i) = Some (ClientObj cl)
                \<and> data cl = ds ! i \<and> fetcher cl = f)
          \<and> (\<forall>b ys. b \<noteq> arr \<and> lookup h b = Some (Array ys) \<longrightarrow> lookup h' b = Some (Array ys))
          \<and> (\<forall>b c. lookup h b = Some (ClientObj c) \<longrightarrow> lookup h' b = Some (ClientObj c))"
  using assms
proof (induction ds arbitrary: h acc)
  case Nil
  then show ?case by simp
next
  case (Cons d ds)
  have d: "d \<noteq> Undefined" "d \<noteq> Null" using Cons.prems(1) by simp_all
  have arr: "arr < length h" using Cons.prems(2) by (rule lookup_Some_less)
  obtain h1 cl where
    s: "HalEndpointClient h d f = Inr (length h, h1)"
       "length h1 = Suc (length h)"
       "lookup h1 (length h) = Some (ClientObj cl)" "data cl = d" "fetcher cl = f"
       "\<forall>b ys. lookup h b = Some (Array ys) \<longrightarrow> lookup h1 b = Some (Array ys)"
       "\<forall>b c. lookup h b = Some (ClientObj c) \<longrightarrow> lookup h1 b = Some (ClientObj c)"
    using HalEndpointClient_step [OF d, of h f] by blast
  let ?h2 = "push h1 arr (VRef (length h))"
  have a1: "lookup h1 arr = Some (Array acc)" using s(6) Cons.prems(2) by blast
  note p = push_result [OF a1, where v = "VRef (length h)"]
  have len2: "length ?h2 = Suc (length h)" using p(1) s(2) by simp
  have rest: "\<forall>x\<in>set ds. x \<noteq> Undefined \<and> x \<noteq> Null" using Cons.prems(1) by simp
  obtain h' where
    ih: "pushClients ?h2 arr ds f = Inr h'"
        "length h' = length ?h2 + length ds"
        "lookup h' arr =
           Some (Array ((acc @ [VRef (length h)]) @ map VRef [length ?h2 ..< length ?h2 + length ds]))"
        "\<forall>i<length ds. \<exists>cl. lookup h' (length ?h2 + i) = Some (ClientObj cl)
                \<and> data cl = ds ! i \<and> fetcher cl = f"
        "\<forall>b ys. b \<noteq> arr \<and> lookup ?h2 b = Some (Array ys) \<longrightarrow> lookup h' b = Some (Array ys)"
        "\<forall>b c. lookup ?h2 b = Some (ClientObj c) \<longrightarrow> lookup h' b = Some (ClientObj c)"
    using Cons.IH [OF rest p(2)] by blast
  have r1: "pushClients h arr (d # ds) f = Inr h'" using s(1) ih(1) by simp
  have r2: "length h' = length h + length (d # ds)" using ih(2) len2 by simp
  have "[length h ..< length h + Suc (length ds)]
          = length h # [Suc (length h) ..< length h + Suc (length ds)]"
    by (rule upt_conv_Cons) simp
  then have r3: "lookup h' arr =
      Some (Array (acc @ map VRef [length h ..< length h + length (d # ds)]))"
    using ih(3) len2 by simp
  have c0: "lookup ?h2 (length h) = Some (ClientObj cl)"
    using p(3) [where b = "length h"] arr s(3) by simp
  have r4: "\<forall>i<length (d # ds). \<exists>cl. lookup h' (length h + i) = Some (ClientObj cl)
                \<and> data cl = (d # ds) ! i \<and> fetcher cl = f"
  proof (intro allI impI)
    fix i assume i: "i < length (d # ds)"
    show "\<exists>cl. lookup h' (length h + i) = Some (ClientObj cl)
                \<and> data cl = (d # ds) ! i \<and> fetcher cl = f"
    proof (cases i)
      case 0
      have "lookup h' (length h) = Some (ClientObj cl)" using ih(6) c0 by blast
      then show ?thesis using 0 s(4,5) by simp
    next
      case (Suc j)
      then have "j < length ds" using i by simp
      then obtain c where "lookup h' (length ?h2 + j) = Some (ClientObj c)"
        "data c = ds ! j" "fetcher c = f" using ih(4) by blast
      then show ?thesis using Suc len2 by simp
    qed
  qed
  have r5: "\<forall>b ys. b \<noteq> arr \<and> lookup h b = Some (Array ys) \<longrightarrow> lookup h' b = Some (Array ys)"
  proof (intro allI impI)
    fix b ys assume b: "b \<noteq> arr \<and> lookup h b = Some (Array ys)"
    then have "lookup h1 b = Some (Array ys)" using s(6) by blast
    then have "lookup ?h2 b = Some (Array ys)" using p(3) [where b = b] b by simp
    then show "lookup h' b = Some (Array ys)" using ih(5) b by blast
  qed
  have r6: "\<forall>b c. lookup h b = Some (ClientObj c) \<longrightarrow> lookup h' b = Some (ClientObj c)"
  proof (intro allI impI)
    fix b c assume b: "lookup h b = Some (ClientObj c)"
    then have b1: "lookup h1 b = Some (ClientObj c)" using s(7) by blast
    have "b \<noteq> arr" using b Cons.prems(2) by auto
    then have "lookup ?h2 b = Some (ClientObj c)" using p(3) [where b = b] b1 by simp
    then show "lookup h' b = Some (ClientObj c)" using ih(6) by blast
  qed
  from r1 r2 r3 r4 r5 r6 show ?case by blast
qed

lemma nth_refs: "i < n \<Longrightarrow> map VRef [m ..< m + n] ! i = VRef (m + i)"
  by simp

lemma length_refs: "length (map VRef [m ..< m + n]) = n"
  by simp

lemma distinct_refs:
  "m + n \<le> m' \<Longrightarrow> distinct (map VRef [m ..< m + n] @ map VRef [m' ..< m' + n'])"
  by (auto simp: distinct_map inj_on_def)

lemma GetAllClients_result:
  assumes "rawDocuments e = VRef a" and "lookup h a = Some (Array xs)"
    and "\<forall>x\<in>set xs. x \<noteq> Undefined \<and> x \<noteq> Null"
  shows "\<exists>h'. GetAllClients h e = Inr (length h, h')
          \<and> length h' = Suc (length h) + length xs
          \<and> lookup h' (length h)
               = Some (Array (map VRef [Suc (length h) ..< Suc (length h) + length xs]))
          \<and> (\<forall>i<length xs. \<exists>cl. lookup h' (Suc (length h) + i) = Some (ClientObj cl)
                \<and> data cl = xs ! i \<and> fetcher cl = embedFetcher e)
          \<and> (\<forall>b ys. lookup h b = Some (Array ys) \<longrightarrow> lookup h' b = Some (Array ys))
          \<and> (\<forall>b c. lookup h b = Some (ClientObj c) \<longrightarrow> lookup h' b = Some (ClientObj c))"
proof -
  let ?h0 = "h @ [Array []]"
  have a: "a < length h" using assms(2) by (rule lookup_Some_less)
  have l0: "lookup ?h0 a = Some (Array xs)" using a assms(2) by (simp add: lookup_append_old)
  have el: "elements ?h0 (rawDocuments e) = Inr xs"
    using l0 by (simp add: elements_def getProp_def member_def own_def toNumber_def assms(1))
  have arr: "lookup ?h0 (length h) = Some (Array [])" by (rule lookup_append_new)
  obtain h' where
    p: "pushClients ?h0 (length h) xs (embedFetcher e) = Inr h'"
       "length h' = length ?h0 + length xs"
       "lookup h' (length h) = Some (Array ([] @ map VRef [length ?h0 ..< length ?h0 + length xs]))"
       "\<forall>i<length xs. \<exists>cl. lookup h' (length ?h0 + i) = Some (ClientObj cl)
                \<and> data cl = xs ! i \<and> fetcher cl = embedFetcher e"
       "\<forall>b ys. b \<noteq> length h \<and> lookup ?h0 b = Some (Array ys) \<longrightarrow> lookup h' b = Some (Array ys)"
       "\<forall>b c. lookup ?h0 b = Some (ClientObj c) \<longrightarrow> lookup h' b = Some (ClientObj c)"
    using pushClients_result [OF assms(3) arr, of "embedFetcher e"] by blast
  have r1: "GetAllClients h e = Inr (length h, h')"
    using el p(1) by (simp add: GetAllClients_def alloc_def)
  have r2: "length h' = Suc (length h) + length xs" using p(2) by simp
  have r3: "lookup h' (length h)
               = Some (Array (map VRef [Suc (length h) ..< Suc (length h) + length xs]))"
    using p(3) by simp
  have r4: "\<forall>i<length xs. \<exists>cl. lookup h' (Suc (length h) + i) = Some (ClientObj cl)
                \<and> data cl = xs ! i \<and> fetcher cl = embedFetcher e"
    using p(4) by simp
  have r5: "\<forall>b ys. lookup h b = Some (Array ys) \<longrightarrow> lookup h' b = Some (Array ys)"
  proof (intro allI impI)
    fix b ys assume l: "lookup h b = Some (Array ys)"
    then have b: "b < length h" by (rule lookup_Some_less)
    then have "lookup ?h0 b = Some (Array ys)" using l by (simp add: lookup_append_old)
    then show "lookup h' b = Some (Array ys)" using p(5) b by auto
  qed
  have r6: "\<forall>b c. lookup h b = Some (ClientObj c) \<longrightarrow> lookup h' b = Some (ClientObj c)"
  proof (intro allI impI)
    fix b c assume l: "lookup h b = Some (ClientObj c)"
    then have b: "b < length h" by (rule lookup_Some_less)
    then have "lookup ?h0 b = Some (ClientObj c)" using l by (simp add: lookup_append_old)
    then show "lookup h' b = Some (ClientObj c)" using p(6) by blast
  qed
  from r1 r2 r3 r4 r5 r6 show ?thesis by blast
qed

text \<open>
  C2, as amended.  Over an array of \<open>n\<close> raw documents, none of them \<^verbatim>\<open>null\<close>, two calls
  of \<^verbatim>\<open>GetAllClients()\<close> both succeed and return two different, newly allocated arrays of
  length \<open>n\<close>; all \<open>2n\<close> elements are references to different, newly allocated
  clients, and the client at position \<open>i\<close> of either array has the raw document at
  position \<open>i\<close>, the same object, as its data.
\<close>

theorem GetAllClients_twice:
  assumes "rawDocuments e = VRef a" and "lookup h a = Some (Array xs)"
    and "\<forall>x\<in>set xs. x \<noteq> Undefined \<and> x \<noteq> Null"
  shows "\<exists>r1 h1 r2 h2 cs1 cs2.
           GetAllClients h e = Inr (r1, h1) \<and> GetAllClients h1 e = Inr (r2, h2)
         \<and> r1 \<noteq> r2 \<and> lookup h r1 = None \<and> lookup h1 r2 = None
         \<and> lookup h1 r1 = Some (Array cs1)
         \<and> lookup h2 r1 = Some (Array cs1) \<and> lookup h2 r2 = Some (Array cs2)
         \<and> length cs1 = length xs \<and> length cs2 = length xs
         \<and> distinct (cs1 @ cs2)
         \<and> (\<forall>i<length xs. \<exists>c1 c2 cl1 cl2.
               cs1 ! i = VRef c1 \<and> cs2 ! i = VRef c2
             \<and> lookup h c1 = None \<and> lookup h1 c2 = None
             \<and> lookup h2 c1 = Some (ClientObj cl1) \<and> lookup h2 c2 = Some (ClientObj cl2)
             \<and> data cl1 = xs ! i \<and> data cl2 = xs ! i)"
proof -
  let ?n = "length xs"
  let ?cs1 = "map VRef [Suc (length h) ..< Suc (length h) + ?n]"
  obtain h1 where
    f: "GetAllClients h e = Inr (length h, h1)"
       "length h1 = Suc (length h) + ?n"
       "lookup h1 (length h) = Some (Array ?cs1)"
       "\<forall>i<?n. \<exists>cl. lookup h1 (Suc (length h) + i) = Some (ClientObj cl)
                \<and> data cl = xs ! i \<and> fetcher cl = embedFetcher e"
       "\<forall>b ys. lookup h b = Some (Array ys) \<longrightarrow> lookup h1 b = Some (Array ys)"
    using GetAllClients_result [OF assms] by blast
  have a1: "lookup h1 a = Some (Array xs)" using f(5) assms(2) by blast
  let ?cs2 = "map VRef [Suc (length h1) ..< Suc (length h1) + ?n]"
  obtain h2 where
    s: "GetAllClients h1 e = Inr (length h1, h2)"
       "lookup h2 (length h1) = Some (Array ?cs2)"
       "\<forall>i<?n. \<exists>cl. lookup h2 (Suc (length h1) + i) = Some (ClientObj cl)
                \<and> data cl = xs ! i \<and> fetcher cl = embedFetcher e"
       "\<forall>b ys. lookup h1 b = Some (Array ys) \<longrightarrow> lookup h2 b = Some (Array ys)"
       "\<forall>b c. lookup h1 b = Some (ClientObj c) \<longrightarrow> lookup h2 b = Some (ClientObj c)"
    using GetAllClients_result [OF assms(1) a1 assms(3)] by blast
  have t1: "length h \<noteq> length h1" using f(2) by simp
  have t2: "lookup h (length h) = None" "lookup h1 (length h1) = None"
    by (simp_all add: lookup_def)
  have t3: "lookup h2 (length h) = Some (Array ?cs1)" using f(3) s(4) by blast
  have t4: "length ?cs1 = ?n" "length ?cs2 = ?n"
    by (rule length_refs)+
  have "Suc (length h) + ?n \<le> Suc (length h1)" using f(2) by simp
  then have t5: "distinct (?cs1 @ ?cs2)" by (rule distinct_refs)
  have t6: "\<forall>i<?n. \<exists>c1 c2 cl1 cl2.
               ?cs1 ! i = VRef c1 \<and> ?cs2 ! i = VRef c2
             \<and> lookup h c1 = None \<and> lookup h1 c2 = None
             \<and> lookup h2 c1 = Some (ClientObj cl1) \<and> lookup h2 c2 = Some (ClientObj cl2)
             \<and> data cl1 = xs ! i \<and> data cl2 = xs ! i"
  proof (intro allI impI)
    fix i assume i: "i < ?n"
    obtain cl1 where c1: "lookup h1 (Suc (length h) + i) = Some (ClientObj cl1)"
      "data cl1 = xs ! i" using f(4) i by blast
    obtain cl2 where c2: "lookup h2 (Suc (length h1) + i) = Some (ClientObj cl2)"
      "data cl2 = xs ! i" using s(3) i by blast
    have k: "lookup h2 (Suc (length h) + i) = Some (ClientObj cl1)" using s(5) c1(1) by blast
    have n1: "?cs1 ! i = VRef (Suc (length h) + i)" using i by (rule nth_refs)
    have n2: "?cs2 ! i = VRef (Suc (length h1) + i)" using i by (rule nth_refs)
    have o: "lookup h (Suc (length h) + i) = None" "lookup h1 (Suc (length h1) + i) = None"
      by (simp_all add: lookup_def)
    from n1 n2 o k c2 c1(2) show "\<exists>c1 c2 cl1 cl2.
               ?cs1 ! i = VRef c1 \<and> ?cs2 ! i = VRef c2
             \<and> lookup h c1 = None \<and> lookup h1 c2 = None
             \<and> lookup h2 c1 = Some (ClientObj cl1) \<and> lookup h2 c2 = Some (ClientObj cl2)
             \<and> data cl1 = xs ! i \<and> data cl2 = xs ! i"
      by blast
  qed
  from f(1) s(1) t1 t2 f(3) t3 s(2) t4 t5 t6 show ?thesis by blast
qed

theorem GetAllClients_twice_witness:
  "rawDocuments itemsEmbed = VRef 4 \<and> lookup sampleHeap 4 = Some (Array [VRef 5])
   \<and> VRef 5 \<noteq> Undefined \<and> VRef 5 \<noteq> Null
   \<and> (\<exists>r1 h1 r2 h2 cs1 cs2.
           GetAllClients sampleHeap itemsEmbed = Inr (r1, h1)
         \<and> GetAllClients h1 itemsEmbed = Inr (r2, h2)
         \<and> r1 \<noteq> r2
         \<and> lookup h2 r1 = Some (Array cs1) \<and> lookup h2 r2 = Some (Array cs2)
         \<and> length cs1 = 1 \<and> length cs2 = 1
         \<and> distinct (cs1 @ cs2)
         \<and> (\<exists>c1 c2 cl1 cl2.
               cs1 ! 0 = VRef c1 \<and> cs2 ! 0 = VRef c2
             \<and> lookup h2 c1 = Some (ClientObj cl1) \<and> lookup h2 c2 = Some (ClientObj cl2)
             \<and> data cl1 = VRef 5 \<and> data cl2 = VRef 5))"
proof -
  have a: "rawDocuments itemsEmbed = VRef 4" by (simp add: itemsEmbed_def)
  have b: "lookup sampleHeap 4 = Some (Array [VRef 5])"
    by (simp add: sampleHeap_def lookup_def)
  have c: "\<forall>x\<in>set [VRef 5]. x \<noteq> Undefined \<and> x \<noteq> Null" by simp
  obtain r1 h1 r2 h2 cs1 cs2 where
    t: "GetAllClients sampleHeap itemsEmbed = Inr (r1, h1)"
       "GetAllClients h1 itemsEmbed = Inr (r2, h2)"
       "r1 \<noteq> r2"
       "lookup h2 r1 = Some (Array cs1)" "lookup h2 r2 = Some (Array cs2)"
       "length cs1 = length [VRef 5]" "length cs2 = length [VRef 5]"
       "distinct (cs1 @ cs2)"
       "\<forall>i<length [VRef 5]. \<exists>c1 c2 cl1 cl2.
               cs1 ! i = VRef c1 \<and> cs2 ! i = VRef c2
             \<and> lookup sampleHeap c1 = None \<and> lookup h1 c2 = None
             \<and> lookup h2 c1 = Some (ClientObj cl1) \<and> lookup h2 c2 = Some (ClientObj cl2)
             \<and> data cl1 = [VRef 5] ! i \<and> data cl2 = [VRef 5] ! i"
    using GetAllClients_twice [OF a b c] by blast
  from t(9) have "\<exists>c1 c2 cl1 cl2.
               cs1 ! 0 = VRef c1 \<and> cs2 ! 0 = VRef c2
             \<and> lookup h2 c1 = Some (ClientObj cl1) \<and> lookup h2 c2 = Some (ClientObj cl2)
             \<and> data cl1 = VRef 5 \<and> data cl2 = VRef 5"
    by fastforce
  with a b t(1-8) show ?thesis by auto
qed

text \<open>
  C2 as stated fails when a raw document carries links.  The first call builds a client
  with the document's link table and deletes \<^verbatim>\<open>_links\<close> from the document, so the client
  the second call builds for the same document has no link table: the two sequences are
  not structurally equal.
\<close>

theorem GetAllClients_twice_counterexample:
  "GetAllClients sampleHeap itemsEmbed = Inr (6, afterFirstCall)
   \<and> GetAllClients afterFirstCall itemsEmbed = Inr (8, afterSecondCall)
   \<and> lookup afterSecondCall 6 = Some (Array [VRef 7])
   \<and> lookup afterSecondCall 8 = Some (Array [VRef 9])
   \<and> lookup afterSecondCall 7 = Some (ClientObj noEmbedClient)
   \<and> lookup afterSecondCall 9 = Some (ClientObj strippedClient)
   \<and> links noEmbedClient = VRef 1
   \<and> links strippedClient = Undefined"
  by (simp add: GetAllClients_def alloc_def elements_def reads toNumber_def lookup_def sampleHeap_def
      itemsEmbed_def HalEndpointClient_def deleteProp_def push_def
      afterFirstCall_def afterSecondCall_def noEmbedClient_def strippedClient_def)

section \<open>Worked examples\<close>

text \<open>
  A failed response whose body is \<^verbatim>\<open>{"message": "bad", "errors": {"name": "required"}}\<close>
  is rejected with the structured error; on its document \<^verbatim>\<open>hasValidationError("name")\<close>
  is true and \<^verbatim>\<open>getValidationError("missing")\<close> is \<^verbatim>\<open>undefined\<close>.
\<close>

lemma structured_error_example:
  "processResult parseErrorDoc [] failedValidation f = Rejected (HalError (VRef 0) 400)
   \<and> hasValidationError
         [Plain [(''message'', VStr ''bad''), (''errors'', VRef 1)],
          Plain [(''name'', VStr ''required'')]] (VRef 0) ''name'' = Inr True
   \<and> getValidationError
         [Plain [(''message'', VStr ''bad''), (''errors'', VRef 1)],
          Plain [(''name'', VStr ''required'')]] (VRef 0) ''missing'' = Inr Undefined"
  by (simp add: processResult_def parseResult_def failedValidation_def parseErrorDoc_def
      startsWith_def halcyonJsonMimeType_def jsonMimeType_def reads lookup_def
      hasValidationError_def hasValidationErrors_def getValidationError_def)

text \<open>
  Following a link that exists: the fetcher answers with a hypermedia document, and the
  promise resolves to a new client over the parsed document with its envelope removed.
\<close>

lemma LoadLink_example:
  "HasLink sampleHeap (linkedClient\<lparr>fetcher := respondWith okHalcyonItem\<rparr>) ''self'' = Inr True
   \<and> LoadLink (sampleEnv\<lparr>JSON_parse := parseItemDoc\<rparr>) sampleHeap
        (linkedClient\<lparr>fetcher := respondWith okHalcyonItem\<rparr>) ''self''
       = Inr (Resolved (7,
           sampleHeap @ [Plain [(''id'', VNum 7)],
             ClientObj \<lparr>data = VRef 6, fetcher = respondWith okHalcyonItem,
                        embeds = Undefined, links = VRef 1\<rparr>]))"
  by (simp add: HasLink_def LoadLink_def GetLink_def Load_def LoadRaw_def processResult_def
      parseResult_def linkedClient_def sampleEnv_def sampleHeap_def okHalcyonItem_def
      parseItemDoc_def respondWith_def startsWith_def halcyonJsonMimeType_def reads
      lookup_def HalEndpointClient_def deleteProp_def alloc_def noOptions_def)

text \<open>
  The loop bound is converted to a number: over an object whose \<^verbatim>\<open>length\<close> is the string
  \<open>2\<close> the loop runs twice and reads the members \<open>0\<close> and \<open>1\<close>.
\<close>

lemma loop_bound_example:
  "elements [Plain [(''length'', VStr ''2''), (''0'', VRef 1)], Plain [(''id'', VNum 1)]] (VRef 0)
     = Inr [VRef 1, Undefined]"
  by code_simp

end
